theory Spec2Isabelle
  imports Complex_Main "HOL-Library.Word"
begin

unbundle bit_operations_syntax

section \<open>JavaScript values\<close>

subsection \<open>Strings\<close>

text \<open>
  A JavaScript string is a sequence of 16-bit code units; \<open>length\<close> counts code units and
  \<open>charCodeAt\<close> reads one. String literals of the source are written \<open>str ''...''\<close>, with
  code units above ASCII given by number (\<open>0xF3\<close> is the letter o with acute accent).
\<close>

type_synonym jsstring = "16 word list"

definition str :: "string \<Rightarrow> jsstring" where
  "str s = map of_char s"

text \<open>The code units removed by \<open>String.prototype.trim\<close> and skipped by \<open>parseInt\<close>:
  ECMAScript's WhiteSpace and LineTerminator.\<close>

definition is_ws :: "16 word \<Rightarrow> bool" where
  "is_ws c \<longleftrightarrow>
     c \<in> {0x09, 0x0A, 0x0B, 0x0C, 0x0D, 0x20, 0xA0, 0x1680, 0x2028, 0x2029, 0x202F, 0x205F,
          0x3000, 0xFEFF}
     \<or> (0x2000 \<le> c \<and> c \<le> 0x200A)"

definition trim :: "jsstring \<Rightarrow> jsstring" where
  "trim s = rev (dropWhile is_ws (rev (dropWhile is_ws s)))"

definition is_digit :: "16 word \<Rightarrow> bool" where
  "is_digit c \<longleftrightarrow> 0x30 \<le> c \<and> c \<le> 0x39"

definition digits_value :: "jsstring \<Rightarrow> int" where
  "digits_value Z = foldl (\<lambda>acc c. acc * 10 + (uint c - 48)) 0 Z"

subsection \<open>Numbers and JSON-like values\<close>

text \<open>
  A number is a finite value, an infinity or NaN. The finite values are taken from the
  rationals, which contain every finite double; the functions below test and copy numbers, and
  \<open>parseInt\<close> makes one by rounding an integer to a double.
\<close>

datatype jsnum = Finite rat | PosInfinity | NegInfinity | NaN

datatype jsval =
    JUndefined
  | JNull
  | JBool bool
  | JNum jsnum
  | JStr jsstring
  | JArr "jsval list"
  | JObj "(jsstring \<times> jsval) list"

datatype jstype = TUndefined | TObject | TBoolean | TNumber | TString

fun typeof :: "jsval \<Rightarrow> jstype" where
  "typeof JUndefined = TUndefined"
| "typeof JNull = TObject"
| "typeof (JBool b) = TBoolean"
| "typeof (JNum n) = TNumber"
| "typeof (JStr s) = TString"
| "typeof (JArr xs) = TObject"
| "typeof (JObj ps) = TObject"

fun isArray :: "jsval \<Rightarrow> bool" where
  "isArray (JArr xs) = True"
| "isArray v = False"

fun elements :: "jsval \<Rightarrow> jsval list" where
  "elements (JArr xs) = xs"
| "elements v = []"

fun the_str :: "jsval \<Rightarrow> jsstring" where
  "the_str (JStr s) = s"
| "the_str v = []"

fun the_num :: "jsval \<Rightarrow> jsnum" where
  "the_num (JNum n) = n"
| "the_num v = NaN"

fun Number_isInteger :: "jsval \<Rightarrow> bool" where
  "Number_isInteger (JNum (Finite q)) = (of_int \<lfloor>q\<rfloor> = q)"
| "Number_isInteger v = False"

definition num_of_int :: "int \<Rightarrow> jsnum" where
  "num_of_int i = Finite (of_int i)"

text \<open>
  The number of an integer is the nearest double, a tie going to the even significand:
  \<open>excess_bits m\<close> is the count of low bits of \<open>m\<close> that do not fit into the 53 bits of a
  significand, \<open>q\<close> is the significand that is left and \<open>r\<close> the part cut off. A value from
  \<open>2 ^ 1024\<close> on is \<open>Infinity\<close>. Below \<open>2 ^ 53\<close> nothing is cut off. Negative zero is not told
  from zero.
\<close>

function excess_bits :: "nat \<Rightarrow> nat" where
  "excess_bits m = (if m < 2 ^ 53 then 0 else Suc (excess_bits (m div 2)))"
  by pat_completeness auto

termination excess_bits
  by (relation "measure id") auto

declare excess_bits.simps [simp del]

definition double_of_nat :: "nat \<Rightarrow> jsnum" where
  "double_of_nat m =
     (let e = excess_bits m;
          q = m div 2 ^ e;
          r = m mod 2 ^ e;
          q' = (if 2 * r > 2 ^ e \<or> (2 * r = 2 ^ e \<and> odd q) then q + 1 else q)
      in if q' * 2 ^ e \<ge> 2 ^ 1024 then PosInfinity else Finite (of_nat (q' * 2 ^ e)))"

fun negate :: "jsnum \<Rightarrow> jsnum" where
  "negate (Finite q) = Finite (- q)"
| "negate PosInfinity = NegInfinity"
| "negate NegInfinity = PosInfinity"
| "negate NaN = NaN"

definition double_of_int :: "int \<Rightarrow> jsnum" where
  "double_of_int i = (if i < 0 then negate (double_of_nat (nat (- i))) else double_of_nat (nat i))"

text \<open>
  \<open>parseInt(inputString, 10)\<close>: leading white space is skipped, one sign is read, and the
  longest run of decimal digits is the value, as a number; without a digit the result is NaN.
  The number is the correctly rounded one, which the engines compute (ECMAScript lets an engine
  read the digits after the twentieth as zeros).
\<close>

definition parseInt :: "jsstring \<Rightarrow> jsnum" where
  "parseInt inputString =
     (let S = dropWhile is_ws inputString;
          sign = (if S \<noteq> [] \<and> hd S = 0x2D then - 1 else 1);
          S' = (if S \<noteq> [] \<and> (hd S = 0x2B \<or> hd S = 0x2D) then tl S else S);
          Z = takeWhile is_digit S'
      in if Z = [] then NaN else double_of_int (sign * digits_value Z))"

definition Number_isNaN :: "jsnum \<Rightarrow> bool" where
  "Number_isNaN n \<longleftrightarrow> n = NaN"

text \<open>Truthiness, as \<open>!x\<close>, \<open>x && y\<close> and \<open>if (x)\<close> test it.\<close>

fun truthy :: "jsval \<Rightarrow> bool" where
  "truthy JUndefined = False"
| "truthy JNull = False"
| "truthy (JBool b) = b"
| "truthy (JNum n) = (n \<noteq> NaN \<and> n \<noteq> Finite 0)"
| "truthy (JStr s) = (s \<noteq> [])"
| "truthy (JArr xs) = True"
| "truthy (JObj ps) = True"

subsection \<open>Properties of objects\<close>

text \<open>
  An object is the list of its own properties in insertion order, read by key. An array has
  its elements under the canonical decimal index strings and \<open>length\<close>, a string likewise.
  Inherited properties (the methods of the prototypes) are functions, which are no values of
  \<open>jsval\<close>: reading one gives \<open>JUndefined\<close> here. The code below only compares what it reads
  with strings, numbers, arrays and objects, where a function and \<open>undefined\<close> behave alike.
\<close>

definition array_index :: "jsstring \<Rightarrow> nat option" where
  "array_index k =
     (if k \<noteq> [] \<and> list_all is_digit k \<and> (length k = 1 \<or> hd k \<noteq> 0x30)
      then Some (nat (digits_value k)) else None)"

fun get_prop :: "jsval \<Rightarrow> jsstring \<Rightarrow> jsval" where
  "get_prop (JObj ps) k = (case map_of ps k of None \<Rightarrow> JUndefined | Some v \<Rightarrow> v)"
| "get_prop (JArr xs) k =
     (case array_index k of
        Some i \<Rightarrow> if i < length xs then xs ! i else JUndefined
      | None \<Rightarrow> if k = str ''length'' then JNum (Finite (of_nat (length xs))) else JUndefined)"
| "get_prop (JStr s) k =
     (case array_index k of
        Some i \<Rightarrow> if i < length s then JStr [s ! i] else JUndefined
      | None \<Rightarrow> if k = str ''length'' then JNum (Finite (of_nat (length s))) else JUndefined)"
| "get_prop v k = JUndefined"

text \<open>Reading a property of \<open>null\<close> or \<open>undefined\<close> throws a TypeError.\<close>

datatype exn = URIError | TypeError | SyntaxError | Rejected jsstring

definition read_prop :: "jsval \<Rightarrow> jsstring \<Rightarrow> exn + jsval" where
  "read_prop v k = (if v = JNull \<or> v = JUndefined then Inl TypeError else Inr (get_prop v k))"

text \<open>The assignment \<open>acc[key] = v\<close>: an existing property keeps its place, a new one is
  added at the end. The spread \<open>{ ...target, ...source }\<close> assigns the properties of the source
  in order.\<close>

fun set_prop :: "jsstring \<Rightarrow> jsval \<Rightarrow> (jsstring \<times> jsval) list \<Rightarrow> (jsstring \<times> jsval) list" where
  "set_prop k v [] = [(k, v)]"
| "set_prop k v ((k', v') # ps) = (if k = k' then (k, v) # ps else (k', v') # set_prop k v ps)"

definition spread :: "(jsstring \<times> jsval) list \<Rightarrow> (jsstring \<times> jsval) list \<Rightarrow> (jsstring \<times> jsval) list" where
  "spread target source = foldl (\<lambda>acc (k, v). set_prop k v acc) target source"

fun has_prop :: "jsval \<Rightarrow> jsstring \<Rightarrow> bool" where
  "has_prop (JObj ps) k = (map_of ps k \<noteq> None)"
| "has_prop v k = False"

subsection \<open>\<open>decodeURIComponent\<close>\<close>

text \<open>
  ECMAScript's \<open>Decode\<close> with an empty set of preserved escapes: every \<open>%XX\<close> is a byte; a byte
  below 128 is a code unit, a byte with two to four leading one bits starts a UTF-8 sequence,
  whose further bytes must be escapes too. A truncated or non-hexadecimal escape, a lone
  continuation byte and an ill-formed UTF-8 sequence throw a URIError.
\<close>

definition hex_value :: "16 word \<Rightarrow> nat option" where
  "hex_value c =
     (if 0x30 \<le> c \<and> c \<le> 0x39 then Some (unat c - 0x30)
      else if 0x41 \<le> c \<and> c \<le> 0x46 then Some (unat c - 0x41 + 10)
      else if 0x61 \<le> c \<and> c \<le> 0x66 then Some (unat c - 0x61 + 10)
      else None)"

fun parse_escape :: "jsstring \<Rightarrow> (nat \<times> jsstring) option" where
  "parse_escape (p # h1 # h2 # rest) =
     (if p = 0x25 then
        (case (hex_value h1, hex_value h2) of
           (Some a, Some b) \<Rightarrow> Some (16 * a + b, rest)
         | _ \<Rightarrow> None)
      else None)"
| "parse_escape s = None"

fun continuation_bytes :: "nat \<Rightarrow> jsstring \<Rightarrow> (nat list \<times> jsstring) option" where
  "continuation_bytes 0 s = Some ([], s)"
| "continuation_bytes (Suc n) s =
     (case parse_escape s of
        None \<Rightarrow> None
      | Some (b, rest) \<Rightarrow>
          (case continuation_bytes n rest of
             None \<Rightarrow> None
           | Some (bs, rest') \<Rightarrow> Some (b # bs, rest')))"

definition leading_ones :: "nat \<Rightarrow> nat" where
  "leading_ones B =
     (if B < 0x80 then 0 else if B < 0xC0 then 1 else if B < 0xE0 then 2
      else if B < 0xF0 then 3 else if B < 0xF8 then 4 else 5)"

definition utf8_code_point :: "nat list \<Rightarrow> nat option" where
  "utf8_code_point Octets =
     (let n = length Octets;
          V = foldl (\<lambda>acc b. acc * 64 + b mod 64) (hd Octets mod 2 ^ (7 - n)) (tl Octets);
          least = (if n = 2 then 0x80 else if n = 3 then 0x800 else 0x10000)
      in if list_all (\<lambda>b. 0x80 \<le> b \<and> b < 0xC0) (tl Octets) \<and> least \<le> V \<and> V \<le> 0x10FFFF
            \<and> \<not> (0xD800 \<le> V \<and> V \<le> 0xDFFF)
         then Some V else None)"

definition UTF16EncodeCodePoint :: "nat \<Rightarrow> jsstring" where
  "UTF16EncodeCodePoint cp =
     (if cp < 0x10000 then [of_nat cp]
      else [of_nat (0xD800 + (cp - 0x10000) div 0x400), of_nat (0xDC00 + (cp - 0x10000) mod 0x400)])"

definition prepend :: "jsstring \<Rightarrow> exn + jsstring \<Rightarrow> exn + jsstring" where
  "prepend S r = (case r of Inl e \<Rightarrow> Inl e | Inr R \<Rightarrow> Inr (S @ R))"

lemma parse_escape_shorter: "parse_escape s = Some (b, rest) \<Longrightarrow> length rest < length s"
  by (induction s rule: parse_escape.induct) (auto split: if_splits option.splits)

lemma continuation_bytes_shorter:
  "continuation_bytes n s = Some (bs, rest) \<Longrightarrow> length rest \<le> length s"
proof (induction n arbitrary: s bs rest)
  case 0
  then show ?case by simp
next
  case (Suc n)
  then show ?case
    by (fastforce split: option.splits dest: parse_escape_shorter)
qed

function Decode :: "jsstring \<Rightarrow> exn + jsstring" where
  "Decode [] = Inr []"
| "Decode (C # cs) =
     (if C \<noteq> 0x25 then prepend [C] (Decode cs)
      else
        (case parse_escape (C # cs) of
           None \<Rightarrow> Inl URIError
         | Some (B, rest) \<Rightarrow>
             if leading_ones B = 0 then prepend [of_nat B] (Decode rest)
             else if leading_ones B = 1 \<or> leading_ones B > 4 then Inl URIError
             else
               (case continuation_bytes (leading_ones B - 1) rest of
                  None \<Rightarrow> Inl URIError
                | Some (bs, rest') \<Rightarrow>
                    (case utf8_code_point (B # bs) of
                       None \<Rightarrow> Inl URIError
                     | Some V \<Rightarrow> prepend (UTF16EncodeCodePoint V) (Decode rest')))))"
  by pat_completeness auto

termination Decode
proof (relation "measure length")
  show "wf (measure length)" by simp
next
  fix C :: "16 word" and cs show "(cs, C # cs) \<in> measure length" by simp
next
  fix C :: "16 word" and cs x2 x y
  assume "parse_escape (C # cs) = Some x2" "(x, y) = x2"
  then show "(y, C # cs) \<in> measure length"
    using parse_escape_shorter [of "C # cs" x y] by simp
next
  fix C :: "16 word" and cs x2 x y x2a xa ya
  assume "parse_escape (C # cs) = Some x2" "(x, y) = x2"
    "continuation_bytes (leading_ones x - 1) y = Some x2a" "(xa, ya) = x2a"
  then show "(ya, C # cs) \<in> measure length"
    using parse_escape_shorter [of "C # cs" x y]
      continuation_bytes_shorter [of "leading_ones x - 1" y xa ya] by simp
qed

declare Decode.simps [simp del]

definition decodeURIComponent :: "jsstring \<Rightarrow> exn + jsstring" where
  "decodeURIComponent encoded = Decode encoded"

section \<open>Word route: \<open>resolveAssignedTo\<close>\<close>

text \<open>
  \<^verbatim>\<open>
  function resolveAssignedTo(rawValue: unknown): number | null {
    if (typeof rawValue === 'number' && Number.isInteger(rawValue)) return rawValue;
    if (typeof rawValue === 'string') {
      const parsed = parseInt(rawValue, 10);
      return Number.isNaN(parsed) ? null : parsed;
    }
    if (Array.isArray(rawValue) && rawValue.length > 0) return resolveAssignedTo(rawValue[0]);
    return null;
  }
  \<close>
  The result \<open>None\<close> is \<open>null\<close>.
\<close>

function resolveAssignedTo :: "jsval \<Rightarrow> jsnum option" where
  "resolveAssignedTo rawValue =
     (if typeof rawValue = TNumber \<and> Number_isInteger rawValue then Some (the_num rawValue)
      else if typeof rawValue = TString then
        (let parsed = parseInt (the_str rawValue)
         in if Number_isNaN parsed then None else Some parsed)
      else if isArray rawValue \<and> length (elements rawValue) > 0 then
        resolveAssignedTo (elements rawValue ! 0)
      else None)"
  by pat_completeness auto

lemma first_element_smaller:
  "isArray v \<Longrightarrow> 0 < length (elements v) \<Longrightarrow> size (elements v ! 0) < size v"
  by (cases v; cases "elements v") auto

termination resolveAssignedTo
  by (relation "measure size") (auto intro: first_element_smaller)

declare resolveAssignedTo.simps [simp del]

subsection \<open>\<open>normalizeMeanings\<close>\<close>

text \<open>
  \<open>MEANING_MARKER_KEYS\<close> is imported from the definitions module; it is the parameter \<open>keys\<close>.
  The conversion of a number to a string inside the template literal is the parameter
  \<open>toString\<close>.
\<close>

definition extractMarkerValues :: "jsstring list \<Rightarrow> jsval \<Rightarrow> (jsstring \<times> jsval) list" where
  "extractMarkerValues keys source =
     foldl (\<lambda>acc key.
              let rawValue = get_prop source key
              in if typeof rawValue = TString then set_prop key rawValue acc
                 else set_prop key JNull acc)
       [] keys"

definition extractExamples :: "jsval \<Rightarrow> jsval list" where
  "extractExamples source =
     (let legacyExample = get_prop source (str ''example'');
          newExamples = get_prop source (str ''examples'')
      in if isArray newExamples then elements newExamples
         else if isArray legacyExample then elements legacyExample
         else if truthy legacyExample \<and> typeof legacyExample = TObject then [legacyExample]
         else [])"

text \<open>\<open>typeof v === 'string' ? v : null\<close>\<close>

definition string_or_null :: "jsval \<Rightarrow> jsval" where
  "string_or_null v = (if typeof v = TString then v else JNull)"

definition Definicion :: jsstring where
  "Definicion = str ''Definici'' @ [0xF3] @ str ''n''"

text \<open>The callback of \<open>map\<close> in \<open>normalizeMeanings\<close>.\<close>

definition normalizeMeaning :: "(jsnum \<Rightarrow> jsstring) \<Rightarrow> jsstring list \<Rightarrow> jsval \<Rightarrow> nat \<Rightarrow> jsval" where
  "normalizeMeaning toString keys item index =
     (let number = (if typeof (get_prop item (str ''number'')) = TNumber
                    then get_prop item (str ''number'')
                    else JNum (Finite (of_nat (index + 1))));
          meaning = (if typeof (get_prop item (str ''meaning'')) = TString
                        \<and> trim (the_str (get_prop item (str ''meaning''))) \<noteq> []
                     then get_prop item (str ''meaning'')
                     else JStr (Definicion @ str '' '' @ toString (the_num number)));
          markerValues = extractMarkerValues keys item;
          examples = extractExamples item
      in JObj (spread
           [(str ''number'', number),
            (str ''meaning'', meaning),
            (str ''origin'', string_or_null (get_prop item (str ''origin''))),
            (str ''grammarCategory'', string_or_null (get_prop item (str ''grammarCategory''))),
            (str ''remission'', string_or_null (get_prop item (str ''remission''))),
            (str ''observation'', string_or_null (get_prop item (str ''observation''))),
            (str ''examples'', if length examples > 0 then JArr examples else JNull),
            (str ''variant'', string_or_null (get_prop item (str ''variant'')))]
           markerValues))"

definition normalizeMeanings :: "(jsnum \<Rightarrow> jsstring) \<Rightarrow> jsstring list \<Rightarrow> jsval \<Rightarrow> jsval list" where
  "normalizeMeanings toString keys input =
     (if \<not> isArray input then []
      else map (\<lambda>(index, item). normalizeMeaning toString keys item index)
             (enumerate 0 (filter (\<lambda>item. typeof item = TObject \<and> item \<noteq> JNull) (elements input))))"

text \<open>The eight properties that the object literal of \<open>normalizeMeanings\<close> (and the default
  meaning of \<open>POST\<close>) writes before it spreads the marker values over them.\<close>

definition MEANING_FIELDS :: "jsstring list" where
  "MEANING_FIELDS =
     [str ''number'', str ''meaning'', str ''origin'', str ''grammarCategory'',
      str ''remission'', str ''observation'', str ''examples'', str ''variant'']"

definition createEmptyMarkerValues :: "jsstring list \<Rightarrow> (jsstring \<times> jsval) list" where
  "createEmptyMarkerValues keys = foldl (\<lambda>acc key. set_prop key JNull acc) [] keys"

section \<open>The request, the response and the modules behind the routes\<close>

text \<open>
  A request carries its headers, the query parameters of its URL and the outcome of
  \<open>request.json()\<close>, which throws on a body that is no JSON. A response is a status and a
  body; \<open>JsonError msg e\<close> is the body \<open>{ error: msg, details: <message of e> }\<close>.
\<close>

record request =
  headers :: "(jsstring \<times> jsstring) list"
  searchParams :: "(jsstring \<times> jsstring) list"
  json :: "exn + jsval"

datatype body = Text jsstring | Json jsval | JsonError jsstring exn

record response =
  status :: nat
  res_body :: body

definition NextResponse_json :: "jsval \<Rightarrow> nat \<Rightarrow> response" where
  "NextResponse_json v st = \<lparr> status = st, res_body = Json v \<rparr>"

definition error_json :: "jsstring \<Rightarrow> nat \<Rightarrow> response" where
  "error_json msg st = NextResponse_json (JObj [(str ''error'', JStr msg)]) st"

definition error_details :: "jsstring \<Rightarrow> exn \<Rightarrow> response" where
  "error_details msg e = \<lparr> status = 500, res_body = JsonError msg e \<rparr>"

definition TooManyRequests :: response where
  "TooManyRequests = \<lparr> status = 429, res_body = Text (str ''Too Many Requests'') \<rparr>"

definition searchParams_get :: "request \<Rightarrow> jsstring \<Rightarrow> jsstring option" where
  "searchParams_get req name = map_of (searchParams req) name"

record session_user =
  user_id :: "jsstring option"
  role :: "jsstring option"

record word_entry =
  w_lemma :: jsstring
  w_root :: jsstring
  w_values :: "jsval list"

record create_options =
  co_letter :: "jsstring option"
  co_assignedTo :: "jsnum option"
  co_status :: "jsstring option"
  co_createdBy :: "jsnum option"

record created_word =
  wordId :: jsval
  cw_lemma :: jsval
  cw_letter :: jsval

record note_user =
  nu_id :: jsnum
  nu_username :: jsstring

record created_note =
  cn_id :: jsnum
  cn_note :: jsstring
  cn_createdAt :: jsstring
  cn_user :: "note_user option"

record note_details =
  userId :: "jsnum option"
  word_lemma :: "jsstring option"
  note_user :: "note_user option"

record updated_note =
  un_id :: jsnum
  un_note :: jsstring
  un_createdAt :: jsstring

text \<open>
  The modules the routes import are not part of the routes: the rate limiter, the session,
  the queries and the editor mutations are the fields of a \<open>backend\<close>, over any type \<open>'db\<close> of
  stored data. A call that throws gives \<open>Inl\<close>. \<open>getWordByLemma\<close> returns the word or \<open>null\<close>:
  \<open>None\<close> is \<open>null\<close>, and a value under \<open>Some\<close> is a word, never \<open>null\<close>. \<open>createdAt\<close> of a note is its ISO string
  already. A \<open>world\<close> is the stored data and the calls made so far, oldest first.
\<close>

record 'db backend =
  applyRateLimit :: "request \<Rightarrow> bool"
  isEditorModeFromHeaders :: "(jsstring \<times> jsstring) list \<Rightarrow> bool"
  getSessionUser :: "exn + session_user option"
  getWordByLemma :: "jsstring \<Rightarrow> bool option \<Rightarrow> 'db \<Rightarrow> exn + jsval option"
  createWord :: "word_entry \<Rightarrow> create_options \<Rightarrow> 'db \<Rightarrow> (exn + created_word) \<times> 'db"
  updateWordByLemma :: "jsstring \<Rightarrow> jsval \<Rightarrow> jsval \<Rightarrow> jsval \<Rightarrow> 'db \<Rightarrow> (exn + unit) \<times> 'db"
  deleteWordByLemma :: "jsstring \<Rightarrow> 'db \<Rightarrow> (exn + unit) \<times> 'db"
  addNoteToWord :: "jsstring \<Rightarrow> jsstring \<Rightarrow> jsnum option \<Rightarrow> 'db \<Rightarrow> (exn + created_note) \<times> 'db"
  getNoteWithDetails :: "jsnum \<Rightarrow> 'db \<Rightarrow> exn + note_details option"
  updateNoteValue :: "jsnum \<Rightarrow> jsstring \<Rightarrow> 'db \<Rightarrow> (exn + updated_note) \<times> 'db"
  deleteNoteById :: "jsnum \<Rightarrow> 'db \<Rightarrow> (exn + unit) \<times> 'db"
  MEANING_MARKER_KEYS :: "jsstring list"
  numberToString :: "jsnum \<Rightarrow> jsstring"

datatype call =
    ApplyRateLimit
  | GetSessionUser
  | GetWordByLemma jsstring "bool option"
  | CreateWord word_entry create_options
  | UpdateWordByLemma jsstring jsval jsval jsval
  | DeleteWordByLemma jsstring
  | AddNoteToWord jsstring jsstring "jsnum option"
  | GetNoteWithDetails jsnum
  | UpdateNoteValue jsnum jsstring
  | DeleteNoteById jsnum

record 'db world =
  db :: 'db
  calls :: "call list"

definition invoke :: "call \<Rightarrow> 'db world \<Rightarrow> 'db world" where
  "invoke c w = w\<lparr>calls := calls w @ [c]\<rparr>"

text \<open>The calls a handler has added to the log.\<close>

definition new_calls :: "'db world \<Rightarrow> 'db world \<Rightarrow> call list" where
  "new_calls w w' = drop (length (calls w)) (calls w')"

text \<open>The calls that reach the database: the query and the mutations.\<close>

fun database_call :: "call \<Rightarrow> bool" where
  "database_call ApplyRateLimit = False"
| "database_call GetSessionUser = False"
| "database_call c = True"

fun mutation_call :: "call \<Rightarrow> bool" where
  "mutation_call (CreateWord wd opts) = True"
| "mutation_call (UpdateWordByLemma l wd st a) = True"
| "mutation_call (DeleteWordByLemma l) = True"
| "mutation_call (AddNoteToWord l n u) = True"
| "mutation_call (UpdateNoteValue i n) = True"
| "mutation_call (DeleteNoteById i) = True"
| "mutation_call c = False"

section \<open>Word route: \<open>/api/words/[lemma]\<close>\<close>

subsection \<open>GET\<close>

text \<open>The parameter \<open>lemma\<close> is a value, since the handler tests its type.\<close>

definition GET :: "'db backend \<Rightarrow> request \<Rightarrow> jsval \<Rightarrow> 'db world \<Rightarrow> response \<times> 'db world" where
  "GET be request lemma w =
     (let w1 = invoke ApplyRateLimit w in
      if \<not> applyRateLimit be request then (TooManyRequests, w1)
      else if \<not> truthy lemma \<or> typeof lemma \<noteq> TString \<or> length (trim (the_str lemma)) = 0
      then (error_json (str ''Invalid lemma parameter'') 400, w1)
      else
        (case decodeURIComponent (trim (the_str lemma)) of
           Inl e \<Rightarrow> (error_json (str ''Internal server error'') 500, w1)
         | Inr decodedLemma \<Rightarrow>
             if length decodedLemma > 100 then (error_json (str ''Lemma too long'') 400, w1)
             else
               (let editorMode = (isEditorModeFromHeaders be (headers request)
                      \<or> searchParams_get request (str ''editorMode'') = Some (str ''true''));
                    options = (if editorMode then Some True else None);
                    w2 = invoke (GetWordByLemma decodedLemma options) w1
                in case getWordByLemma be decodedLemma options (db w2) of
                     Inl e \<Rightarrow> (error_json (str ''Internal server error'') 500, w2)
                   | Inr None \<Rightarrow> (error_json (str ''Word not found'') 404, w2)
                   | Inr (Some wordData) \<Rightarrow>
                       (NextResponse_json
                          (JObj [(str ''success'', JBool True), (str ''data'', wordData)]) 200,
                        w2))))"

subsection \<open>POST\<close>

definition default_meaning :: "jsstring list \<Rightarrow> jsval" where
  "default_meaning keys =
     JObj (spread
       [(str ''number'', JNum (Finite 1)),
        (str ''meaning'', JStr (Definicion @ str '' pendiente'')),
        (str ''origin'', JNull),
        (str ''grammarCategory'', JNull),
        (str ''remission'', JNull),
        (str ''observation'', JNull),
        (str ''examples'', JNull),
        (str ''variant'', JNull)]
       (createEmptyMarkerValues keys))"

definition Error_al_crear :: jsstring where
  "Error_al_crear = str ''Error al crear la palabra''"

text \<open>
  The constants of \<open>POST\<close> between the check of the lemma and the call of \<open>createWord\<close>:
  \<open>word_of_payload\<close> is \<open>word\<close> (with \<open>root\<close>, \<open>values\<close> and \<open>finalValues\<close>) and
  \<open>options_of_payload\<close> is the second argument (\<open>letter\<close>, \<open>assignedTo\<close>, \<open>status\<close>,
  \<open>createdBy\<close>).
\<close>

definition word_of_payload :: "(jsnum \<Rightarrow> jsstring) \<Rightarrow> jsstring list \<Rightarrow> jsval \<Rightarrow> jsstring \<Rightarrow> word_entry" where
  "word_of_payload toString keys payload lemma =
     (let root = (if typeof (get_prop payload (str ''root'')) = TString
                  then the_str (get_prop payload (str ''root'')) else []);
          values = normalizeMeanings toString keys (get_prop payload (str ''values''));
          finalValues = (if length values > 0 then values else [default_meaning keys])
      in \<lparr> w_lemma = lemma, w_root = root, w_values = finalValues \<rparr>)"

definition options_of_payload :: "jsval \<Rightarrow> create_options" where
  "options_of_payload payload =
     (let letter = (if typeof (get_prop payload (str ''letter'')) = TString
                    then Some (trim (the_str (get_prop payload (str ''letter''))))
                    else None);
          assignedTo = resolveAssignedTo (get_prop payload (str ''assignedTo''));
          status = (if typeof (get_prop payload (str ''status'')) = TString
                    then Some (the_str (get_prop payload (str ''status'')))
                    else None);
          createdBy = resolveAssignedTo (get_prop payload (str ''createdBy''))
      in \<lparr> co_letter = letter, co_assignedTo = assignedTo, co_status = status,
           co_createdBy = createdBy \<rparr>)"

definition created_json :: "created_word \<Rightarrow> jsval" where
  "created_json result =
     JObj [(str ''success'', JBool True),
           (str ''data'',
            JObj [(str ''wordId'', wordId result),
                  (str ''lemma'', cw_lemma result),
                  (str ''letter'', cw_letter result)])]"

definition POST :: "'db backend \<Rightarrow> request \<Rightarrow> 'db world \<Rightarrow> response \<times> 'db world" where
  "POST be request w =
     (let w1 = invoke ApplyRateLimit w in
      if \<not> applyRateLimit be request then (TooManyRequests, w1)
      else
        (case json request of
           Inl e \<Rightarrow> (error_details Error_al_crear e, w1)
         | Inr payload \<Rightarrow>
             (case read_prop payload (str ''lemma'') of
                Inl e \<Rightarrow> (error_details Error_al_crear e, w1)
              | Inr payload_lemma \<Rightarrow>
                  (let lemma = (if typeof payload_lemma = TString then trim (the_str payload_lemma)
                                else [])
                   in if lemma = [] then (error_json (str ''El lema es obligatorio'') 400, w1)
                      else
                        (let word = word_of_payload (numberToString be) (MEANING_MARKER_KEYS be)
                                      payload lemma;
                             options = options_of_payload payload;
                             w2 = invoke (CreateWord word options) w1
                         in case createWord be word options (db w2) of
                              (Inl e, db') \<Rightarrow> (error_details Error_al_crear e, w2\<lparr>db := db'\<rparr>)
                            | (Inr result, db') \<Rightarrow>
                                (NextResponse_json (created_json result) 201, w2\<lparr>db := db'\<rparr>))))))"

subsection \<open>PUT\<close>

definition Error_al_actualizar :: jsstring where
  "Error_al_actualizar = str ''Error al actualizar la palabra''"

definition note_user_json :: "note_user option \<Rightarrow> jsval" where
  "note_user_json u =
     (case u of
        None \<Rightarrow> JNull
      | Some x \<Rightarrow> JObj [(str ''id'', JNum (nu_id x)), (str ''username'', JStr (nu_username x))])"

text \<open>The branch of \<open>PUT\<close> that stores a comment; its value is \<open>responseData.comment\<close>.\<close>

definition PUT_comment ::
  "'db backend \<Rightarrow> jsstring \<Rightarrow> jsstring \<Rightarrow> 'db world \<Rightarrow> (exn + jsval) \<times> 'db world" where
  "PUT_comment be decodedLemma comment w =
     (let w1 = invoke GetSessionUser w in
      case getSessionUser be of
        Inl e \<Rightarrow> (Inl e, w1)
      | Inr session \<Rightarrow>
          (let maybeId = (case session of
                            None \<Rightarrow> NaN
                          | Some u \<Rightarrow>
                              (case user_id u of
                                 None \<Rightarrow> NaN
                               | Some i \<Rightarrow> if i \<noteq> [] then parseInt i else NaN));
               userId = (if Number_isInteger (JNum maybeId) then Some maybeId else None);
               w2 = invoke (AddNoteToWord decodedLemma (trim comment) userId) w1
           in case addNoteToWord be decodedLemma (trim comment) userId (db w2) of
                (Inl e, db') \<Rightarrow> (Inl e, w2\<lparr>db := db'\<rparr>)
              | (Inr created, db') \<Rightarrow>
                  (Inr (JObj [(str ''id'', JNum (cn_id created)),
                              (str ''note'', JStr (cn_note created)),
                              (str ''createdAt'', JStr (cn_createdAt created)),
                              (str ''user'', note_user_json (cn_user created))]),
                   w2\<lparr>db := db'\<rparr>)))"

definition PUT_success :: "jsval option \<Rightarrow> response" where
  "PUT_success comment =
     NextResponse_json
       (JObj ((str ''success'', JBool True) #
              (case comment of
                 None \<Rightarrow> []
               | Some c \<Rightarrow> [(str ''data'', JObj [(str ''comment'', c)])])))
       200"

definition PUT :: "'db backend \<Rightarrow> request \<Rightarrow> jsstring \<Rightarrow> 'db world \<Rightarrow> response \<times> 'db world" where
  "PUT be request lemma w =
     (case decodeURIComponent lemma of
        Inl e \<Rightarrow> (error_details Error_al_actualizar e, w)
      | Inr decodedLemma \<Rightarrow>
          (case json request of
             Inl e \<Rightarrow> (error_details Error_al_actualizar e, w)
           | Inr body \<Rightarrow>
               if \<not> truthy body \<or> typeof body \<noteq> TObject
               then (error_json (str ''Solicitud inv'' @ [0xE1] @ str ''lida: se esperaba un objeto JSON'')
                       400, w)
               else
                 (let updatedWord = get_prop body (str ''word'');
                      status = get_prop body (str ''status'');
                      assignedTo = get_prop body (str ''assignedTo'');
                      comment = get_prop body (str ''comment'')
                  in case (if typeof comment = TString \<and> length (trim (the_str comment)) > 0
                           then (case PUT_comment be decodedLemma (the_str comment) w of
                                   (Inl e, w1) \<Rightarrow> (Inl e, w1)
                                 | (Inr c, w1) \<Rightarrow> (Inr (Some c), w1))
                           else (Inr None, w)) of
                       (Inl e, w1) \<Rightarrow> (error_details Error_al_actualizar e, w1)
                     | (Inr responseData_comment, w1) \<Rightarrow>
                         if truthy updatedWord then
                           (let w2 = invoke (UpdateWordByLemma decodedLemma updatedWord status
                                               assignedTo) w1
                            in case updateWordByLemma be decodedLemma updatedWord status assignedTo
                                      (db w2) of
                                 (Inl e, db') \<Rightarrow>
                                   (error_details Error_al_actualizar e, w2\<lparr>db := db'\<rparr>)
                               | (Inr u, db') \<Rightarrow>
                                   (PUT_success responseData_comment, w2\<lparr>db := db'\<rparr>))
                         else if responseData_comment = None then
                           (error_json (str ''No se proporcionaron cambios para actualizar'') 400,
                            w1)
                         else (PUT_success responseData_comment, w1))))"

subsection \<open>DELETE\<close>

definition Error_al_eliminar :: jsstring where
  "Error_al_eliminar = str ''Error al eliminar la palabra''"

definition DELETE_word :: "'db backend \<Rightarrow> jsstring \<Rightarrow> 'db world \<Rightarrow> response \<times> 'db world" where
  "DELETE_word be lemma w =
     (let w1 = invoke GetSessionUser w in
      case getSessionUser be of
        Inl e \<Rightarrow> (error_details Error_al_eliminar e, w1)
      | Inr None \<Rightarrow> (error_json (str ''Authentication required'') 401, w1)
      | Inr (Some user) \<Rightarrow>
          if role user \<noteq> Some (str ''admin'') \<and> role user \<noteq> Some (str ''superadmin'')
          then (error_json (str ''Forbidden: Admin permission required to delete words'') 403, w1)
          else
            (case decodeURIComponent lemma of
               Inl e \<Rightarrow> (error_details Error_al_eliminar e, w1)
             | Inr decodedLemma \<Rightarrow>
                 (let w2 = invoke (DeleteWordByLemma decodedLemma) w1
                  in case deleteWordByLemma be decodedLemma (db w2) of
                       (Inl e, db') \<Rightarrow> (error_details Error_al_eliminar e, w2\<lparr>db := db'\<rparr>)
                     | (Inr u, db') \<Rightarrow>
                         (NextResponse_json (JObj [(str ''success'', JBool True)]) 200,
                          w2\<lparr>db := db'\<rparr>))))"

section \<open>Comment route: \<open>/api/words/[lemma]/comments/[commentId]\<close>\<close>

fun num_le_zero :: "jsnum \<Rightarrow> bool" where
  "num_le_zero (Finite q) = (q \<le> 0)"
| "num_le_zero NegInfinity = True"
| "num_le_zero n = False"

definition parseCommentId :: "jsstring \<Rightarrow> jsnum option" where
  "parseCommentId rawId =
     (let parsed = parseInt rawId
      in if Number_isNaN parsed \<or> num_le_zero parsed then None else Some parsed)"

definition normalizeLemma :: "jsstring \<Rightarrow> jsstring" where
  "normalizeLemma rawLemma =
     (case decodeURIComponent rawLemma of Inl e \<Rightarrow> rawLemma | Inr decoded \<Rightarrow> decoded)"

definition getAuthorizedNote ::
  "'db backend \<Rightarrow> jsstring \<Rightarrow> jsnum \<Rightarrow> 'db world \<Rightarrow> (exn + note_details option) \<times> 'db world" where
  "getAuthorizedNote be lemma commentId w =
     (let w1 = invoke (GetNoteWithDetails commentId) w in
      case getNoteWithDetails be commentId (db w1) of
        Inl e \<Rightarrow> (Inl e, w1)
      | Inr None \<Rightarrow> (Inr None, w1)
      | Inr (Some note) \<Rightarrow> if word_lemma note \<noteq> Some lemma then (Inr None, w1) else (Inr (Some note), w1))"

text \<open>Strict equality \<open>===\<close> of two values that are a number or \<open>null\<close>: NaN equals nothing.\<close>

fun strict_equals :: "jsnum option \<Rightarrow> jsnum option \<Rightarrow> bool" where
  "strict_equals None None = True"
| "strict_equals (Some a) (Some b) = (a \<noteq> NaN \<and> a = b)"
| "strict_equals a b = False"

text \<open>\<open>user.id ? Number.parseInt(user.id, 10) : null\<close>\<close>

definition requesterId_of :: "session_user \<Rightarrow> jsnum option" where
  "requesterId_of user =
     (case user_id user of None \<Rightarrow> None | Some i \<Rightarrow> if i \<noteq> [] then Some (parseInt i) else None)"

definition Autenticacion_requerida :: jsstring where
  "Autenticacion_requerida = str ''Autenticaci'' @ [0xF3] @ str ''n requerida.''"

definition Identificador_invalido :: jsstring where
  "Identificador_invalido = str ''Identificador de comentario inv'' @ [0xE1] @ str ''lido.''"

definition Comentario_no_encontrado :: jsstring where
  "Comentario_no_encontrado = str ''Comentario no encontrado.''"

subsection \<open>PATCH\<close>

definition Error_al_actualizar_comentario :: jsstring where
  "Error_al_actualizar_comentario = str ''Error al actualizar el comentario.''"

definition PATCH ::
  "'db backend \<Rightarrow> request \<Rightarrow> jsstring \<Rightarrow> jsstring \<Rightarrow> 'db world \<Rightarrow> response \<times> 'db world" where
  "PATCH be request lemma commentId w =
     (let w1 = invoke GetSessionUser w in
      case getSessionUser be of
        Inl e \<Rightarrow> (error_details Error_al_actualizar_comentario e, w1)
      | Inr None \<Rightarrow> (error_json Autenticacion_requerida 401, w1)
      | Inr (Some user) \<Rightarrow>
          (let normalizedLemma = normalizeLemma lemma in
           case parseCommentId commentId of
             None \<Rightarrow> (error_json Identificador_invalido 400, w1)
           | Some noteId \<Rightarrow>
               if \<not> truthy (JNum noteId) then (error_json Identificador_invalido 400, w1)
               else
                 (case json request of
                    Inl e \<Rightarrow> (error_details Error_al_actualizar_comentario e, w1)
                  | Inr payload \<Rightarrow>
                      (case read_prop payload (str ''note'') of
                         Inl e \<Rightarrow> (error_details Error_al_actualizar_comentario e, w1)
                       | Inr payload_note \<Rightarrow>
                           (let noteValue = (if typeof payload_note = TString
                                             then trim (the_str payload_note) else [])
                            in if noteValue = []
                               then (error_json (str ''El comentario no puede estar vac''
                                                 @ [0xED] @ str ''o.'') 400, w1)
                               else
                                 (case getAuthorizedNote be normalizedLemma noteId w1 of
                                    (Inl e, w2) \<Rightarrow>
                                      (error_details Error_al_actualizar_comentario e, w2)
                                  | (Inr None, w2) \<Rightarrow> (error_json Comentario_no_encontrado 404, w2)
                                  | (Inr (Some note), w2) \<Rightarrow>
                                      (let requesterId = requesterId_of user;
                                           role = (case role user of None \<Rightarrow> [] | Some r \<Rightarrow> r);
                                           isOwner = (requesterId \<noteq> None
                                                      \<and> strict_equals (userId note) requesterId);
                                           canEdit = (isOwner \<and> (role = str ''lexicographer''
                                                        \<or> role = str ''admin''
                                                        \<or> role = str ''superadmin''))
                                       in if \<not> canEdit
                                          then (error_json
                                                  (str ''Solo puedes editar tus propios comentarios.'')
                                                  403, w2)
                                          else
                                            (let w3 = invoke (UpdateNoteValue noteId noteValue) w2
                                             in case updateNoteValue be noteId noteValue (db w3) of
                                                  (Inl e, db') \<Rightarrow>
                                                    (error_details Error_al_actualizar_comentario e,
                                                     w3\<lparr>db := db'\<rparr>)
                                                | (Inr updated, db') \<Rightarrow>
                                                    (NextResponse_json
                                                       (JObj [(str ''success'', JBool True),
                                                          (str ''data'', JObj [(str ''comment'',
                                                             JObj [(str ''id'', JNum (un_id updated)),
                                                                   (str ''note'', JStr (un_note updated)),
                                                                   (str ''createdAt'',
                                                                    JStr (un_createdAt updated)),
                                                                   (str ''user'',
                                                                    note_user_json (note_user note))])])])
                                                       200,
                                                     w3\<lparr>db := db'\<rparr>)))))))))"

subsection \<open>DELETE\<close>

definition Error_al_eliminar_comentario :: jsstring where
  "Error_al_eliminar_comentario = str ''Error al eliminar el comentario.''"

definition DELETE_comment ::
  "'db backend \<Rightarrow> jsstring \<Rightarrow> jsstring \<Rightarrow> 'db world \<Rightarrow> response \<times> 'db world" where
  "DELETE_comment be lemma commentId w =
     (let w1 = invoke GetSessionUser w in
      case getSessionUser be of
        Inl e \<Rightarrow> (error_details Error_al_eliminar_comentario e, w1)
      | Inr None \<Rightarrow> (error_json Autenticacion_requerida 401, w1)
      | Inr (Some user) \<Rightarrow>
          (let normalizedLemma = normalizeLemma lemma in
           case parseCommentId commentId of
             None \<Rightarrow> (error_json Identificador_invalido 400, w1)
           | Some noteId \<Rightarrow>
               if \<not> truthy (JNum noteId) then (error_json Identificador_invalido 400, w1)
               else
                 (case getAuthorizedNote be normalizedLemma noteId w1 of
                    (Inl e, w2) \<Rightarrow> (error_details Error_al_eliminar_comentario e, w2)
                  | (Inr None, w2) \<Rightarrow> (error_json Comentario_no_encontrado 404, w2)
                  | (Inr (Some note), w2) \<Rightarrow>
                      (let requesterId = requesterId_of user;
                           isLexicographer = (role user = Some (str ''lexicographer''));
                           isAdmin = (role user = Some (str ''admin'')
                                      \<or> role user = Some (str ''superadmin''));
                           isOwner = (requesterId \<noteq> None
                                      \<and> strict_equals (userId note) requesterId);
                           canDelete = ((isLexicographer \<and> isOwner) \<or> isAdmin)
                       in if \<not> canDelete
                          then (error_json
                                  (str ''No tienes permiso para eliminar este comentario.'') 403, w2)
                          else
                            (let w3 = invoke (DeleteNoteById noteId) w2
                             in case deleteNoteById be noteId (db w3) of
                                  (Inl e, db') \<Rightarrow>
                                    (error_details Error_al_eliminar_comentario e, w3\<lparr>db := db'\<rparr>)
                                | (Inr u, db') \<Rightarrow>
                                    (NextResponse_json
                                       (JObj [(str ''success'', JBool True),
                                              (str ''data'', JObj [(str ''id'', JNum noteId)])])
                                       200,
                                     w3\<lparr>db := db'\<rparr>))))))"

section \<open>Comment section of the word page\<close>

text \<open>
  The state of \<open>WordCommentSection\<close> that \<open>addComment\<close> writes is the list of comments and the
  error message. The hook \<open>useUserRole\<close> is imported; what it returns is the record \<open>user_role\<close>
  (\<open>currentId\<close> is \<open>None\<close> when it is no number, \<open>hook_username\<close> when it is missing).
\<close>

record comment_user =
  cu_id :: "int option"
  cu_username :: jsstring

record word_comment =
  comment_id :: int
  comment_user :: "comment_user option"
  comment_note :: jsstring
  createdAt :: jsstring

record user_role =
  isAdmin :: bool
  isLexicographer :: bool
  currentId :: "int option"
  hook_username :: "jsstring option"

record section_state =
  comments :: "word_comment list"
  error :: "jsstring option"

text \<open>
  What the \<open>fetch\<close> of the PUT request gives: it throws, or a response with its \<open>ok\<close> flag and
  the outcome of \<open>res.json()\<close>, read as \<open>payload?.data?.comment\<close> (\<open>None\<close> when missing).
\<close>

datatype put_outcome = FetchThrows | PutResponse bool "exn + word_comment option"

fun findIndex :: "('a \<Rightarrow> bool) \<Rightarrow> 'a list \<Rightarrow> int" where
  "findIndex P [] = - 1"
| "findIndex P (x # xs) =
     (if P x then 0 else (let i = findIndex P xs in if i = - 1 then - 1 else i + 1))"

definition optimistic_comment :: "user_role \<Rightarrow> jsstring \<Rightarrow> int \<Rightarrow> jsstring \<Rightarrow> word_comment" where
  "optimistic_comment hook trimmed now isoNow =
     (let optimisticUser =
            (case currentId hook of
               Some i \<Rightarrow>
                 Some \<lparr> cu_id = Some i,
                        cu_username = (case hook_username hook of
                                         None \<Rightarrow> str ''T'' @ [0xFA]
                                       | Some u \<Rightarrow> if u \<noteq> [] then u else str ''T'' @ [0xFA]) \<rparr>
             | None \<Rightarrow>
                 (case hook_username hook of
                    None \<Rightarrow> None
                  | Some u \<Rightarrow> if u \<noteq> [] then Some \<lparr> cu_id = None, cu_username = u \<rparr> else None))
      in \<lparr> comment_id = now, comment_user = optimisticUser, comment_note = trimmed,
           createdAt = isoNow \<rparr>)"

text \<open>The state after the synchronous part of \<open>addComment\<close>, before the request is awaited.\<close>

definition addComment_optimistic ::
  "user_role \<Rightarrow> jsstring \<Rightarrow> int \<Rightarrow> jsstring \<Rightarrow> section_state \<Rightarrow> section_state" where
  "addComment_optimistic hook trimmed now isoNow st =
     (let st1 = st\<lparr>error := None\<rparr>;
          optimistic = optimistic_comment hook trimmed now isoNow
      in st1\<lparr>comments := optimistic # comments st1\<rparr>)"

text \<open>The \<open>catch\<close> block.\<close>

definition addComment_failed :: "word_comment \<Rightarrow> section_state \<Rightarrow> section_state" where
  "addComment_failed optimistic st =
     st\<lparr>comments := filter (\<lambda>comment. comment_id comment \<noteq> comment_id optimistic) (comments st),
        error := Some (str ''No pudimos guardar el comentario. Vuelve a intentarlo.'')\<rparr>"

definition addComment_saved :: "word_comment \<Rightarrow> word_comment \<Rightarrow> section_state \<Rightarrow> section_state" where
  "addComment_saved optimistic saved st =
     st\<lparr>comments :=
          (let prev = comments st;
               index = findIndex (\<lambda>comment. comment_id comment = comment_id optimistic) prev
           in if index = - 1 then saved # prev else prev[nat index := saved])\<rparr>"

text \<open>\<open>now\<close> is \<open>Date.now()\<close> and \<open>isoNow\<close> is \<open>new Date().toISOString()\<close>.\<close>

definition addComment ::
  "user_role \<Rightarrow> jsstring \<Rightarrow> jsstring \<Rightarrow> int \<Rightarrow> jsstring \<Rightarrow> put_outcome \<Rightarrow> section_state
   \<Rightarrow> section_state" where
  "addComment hook lemma text now isoNow outcome st =
     (let trimmed = trim text in
      if trimmed = [] then st
      else if lemma = []
      then st\<lparr>error := Some (str ''No pudimos asociar el comentario a la palabra actual.'')\<rparr>
      else
        (let optimistic = optimistic_comment hook trimmed now isoNow;
             st2 = addComment_optimistic hook trimmed now isoNow st
         in case outcome of
              FetchThrows \<Rightarrow> addComment_failed optimistic st2
            | PutResponse ok parsed \<Rightarrow>
                if \<not> ok then addComment_failed optimistic st2
                else
                  (case parsed of
                     Inl e \<Rightarrow> addComment_failed optimistic st2
                   | Inr None \<Rightarrow> addComment_failed optimistic st2
                   | Inr (Some saved) \<Rightarrow> addComment_saved optimistic saved st2)))"

definition canEditComment :: "bool \<Rightarrow> user_role \<Rightarrow> word_comment \<Rightarrow> bool" where
  "canEditComment editorMode hook comment =
     (if \<not> editorMode then False
      else
        (let ownsComment =
               (currentId hook \<noteq> None
                \<and> (case comment_user comment of None \<Rightarrow> False | Some u \<Rightarrow> cu_id u \<noteq> None)
                \<and> (case comment_user comment of None \<Rightarrow> False | Some u \<Rightarrow> cu_id u = currentId hook))
         in if \<not> ownsComment then False else isLexicographer hook \<or> isAdmin hook))"

definition canDeleteComment :: "bool \<Rightarrow> user_role \<Rightarrow> word_comment \<Rightarrow> bool" where
  "canDeleteComment editorMode hook comment =
     (if \<not> editorMode then False
      else
        (let ownComment =
               (currentId hook \<noteq> None
                \<and> (case comment_user comment of None \<Rightarrow> False | Some u \<Rightarrow> cu_id u \<noteq> None)
                \<and> (case comment_user comment of None \<Rightarrow> False | Some u \<Rightarrow> cu_id u = currentId hook))
         in (isLexicographer hook \<and> ownComment) \<or> isAdmin hook))"

section \<open>Comment bubble: user colours\<close>

record palette =
  avatarBg :: string
  avatarText :: string
  accentFrom :: string
  accentVia :: string
  accentTo :: string
  bubbleBorder :: string
  bubbleBg :: string
  label :: string
  cardBorder :: string
  cardBg :: string

definition mk_palette :: "string \<Rightarrow> string \<Rightarrow> palette" where
  "mk_palette colour border =
     \<lparr> avatarBg = ''bg-'' @ colour @ ''-500/15'',
       avatarText = ''text-'' @ colour @ ''-700'',
       accentFrom = ''from-'' @ colour @ ''-500'',
       accentVia = ''via-'' @ colour @ ''-400/80'',
       accentTo = ''to-'' @ colour @ ''-300/70'',
       bubbleBorder = ''border-'' @ colour @ ''-'' @ border,
       bubbleBg = ''bg-'' @ colour @ ''-50/80'',
       label = ''text-'' @ colour @ ''-600'',
       cardBorder = ''border-'' @ colour @ ''-'' @ border,
       cardBg = ''bg-'' @ colour @ ''-50/40'' \<rparr>"

definition COLOR_PALETTE :: "palette list" where
  "COLOR_PALETTE =
     [mk_palette ''blue'' ''100'', mk_palette ''emerald'' ''100'', mk_palette ''amber'' ''100'',
      mk_palette ''purple'' ''100'', mk_palette ''rose'' ''100'', mk_palette ''slate'' ''200'']"

text \<open>
  The bitwise operators work on 32-bit two's complement integers: \<open>x | 0\<close> is \<open>ToInt32 x\<close> and
  \<open>x << n\<close> shifts \<open>ToInt32 x\<close> inside 32 bits. Between them \<open>hashString\<close> subtracts and adds
  numbers below \<open>2 ^ 33\<close>, which doubles do exactly, so the hash is an \<open>int\<close> here.
\<close>

definition ToInt32 :: "int \<Rightarrow> int" where
  "ToInt32 x = sint (word_of_int x :: 32 word)"

definition shift_left :: "int \<Rightarrow> nat \<Rightarrow> int" where
  "shift_left x n = sint (push_bit (n mod 32) (word_of_int x :: 32 word))"

text \<open>
  \<^verbatim>\<open>
  let hash = 0;
  for (let i = 0; i < value.length; i += 1) {
    hash = (hash << 5) - hash + value.charCodeAt(i);
    hash |= 0;
  }
  return Math.abs(hash);
  \<close>
\<close>

fun hashString_loop :: "int \<Rightarrow> jsstring \<Rightarrow> int" where
  "hashString_loop hash [] = hash"
| "hashString_loop hash (c # cs) = hashString_loop (ToInt32 (shift_left hash 5 - hash + uint c)) cs"

definition hashString :: "jsstring \<Rightarrow> int" where
  "hashString val = \<bar>hashString_loop 0 val\<bar>"

text \<open>The remainder operator \<open>%\<close> takes the sign of the dividend; reading an array outside its
  bounds gives \<open>undefined\<close>, here \<open>None\<close>.\<close>

definition js_rem :: "int \<Rightarrow> int \<Rightarrow> int" where
  "js_rem a b = sgn a * (\<bar>a\<bar> mod \<bar>b\<bar>)"

definition array_get :: "'a list \<Rightarrow> int \<Rightarrow> 'a option" where
  "array_get xs i = (if 0 \<le> i \<and> nat i < length xs then Some (xs ! nat i) else None)"

definition getPaletteForUser :: "jsstring \<Rightarrow> palette option" where
  "getPaletteForUser userKey =
     array_get COLOR_PALETTE (js_rem (hashString userKey) (int (length COLOR_PALETTE)))"

section \<open>An in-memory backend\<close>

text \<open>
  A small backend for the examples below: the stored data are the lemmas of the words and the
  notes by id; the rate limiter and the session are fixed by the two arguments. Its conversion
  of numbers to strings, \<open>digits_toString\<close>, is JavaScript's on NaN, the infinities and the
  integers of magnitude below \<open>10 ^ 21\<close> (a sign and the decimal digits). For the other finite
  numbers, which JavaScript prints with a fraction or an exponent, it gives the empty string;
  the examples do not reach them, and the theorems hold for every conversion.
\<close>

record store =
  stored_words :: "jsstring list"
  stored_notes :: "(jsnum \<times> note_details) list"

fun decimal_digits :: "nat \<Rightarrow> jsstring" where
  "decimal_digits n =
     (if n < 10 then [of_nat (48 + n)] else decimal_digits (n div 10) @ [of_nat (48 + n mod 10)])"

declare decimal_digits.simps [simp del]

fun digits_toString :: "jsnum \<Rightarrow> jsstring" where
  "digits_toString (Finite q) =
     (if of_int \<lfloor>q\<rfloor> = q \<and> \<bar>q\<bar> < 10 ^ 21 then
        (if q < 0 then str ''-'' @ decimal_digits (nat (- \<lfloor>q\<rfloor>)) else decimal_digits (nat \<lfloor>q\<rfloor>))
      else [])"
| "digits_toString PosInfinity = str ''Infinity''"
| "digits_toString NegInfinity = str ''-Infinity''"
| "digits_toString NaN = str ''NaN''"

definition memory_backend :: "bool \<Rightarrow> exn + session_user option \<Rightarrow> store backend" where
  "memory_backend allow session =
     \<lparr> applyRateLimit = (\<lambda>request. allow),
       isEditorModeFromHeaders = (\<lambda>hs. map_of hs (str ''x-editor-mode'') = Some (str ''true'')),
       getSessionUser = session,
       getWordByLemma =
         (\<lambda>l options d.
            Inr (if l \<in> set (stored_words d) then Some (JObj [(str ''lemma'', JStr l)]) else None)),
       createWord =
         (\<lambda>wd options d.
            (Inr \<lparr> wordId = JNum (Finite (of_nat (length (stored_words d) + 1))),
                   cw_lemma = JStr (w_lemma wd),
                   cw_letter = JStr (take 1 (w_lemma wd)) \<rparr>,
             d\<lparr>stored_words := stored_words d @ [w_lemma wd]\<rparr>)),
       updateWordByLemma = (\<lambda>l wd st a d. (Inr (), d)),
       deleteWordByLemma = (\<lambda>l d. (Inr (), d\<lparr>stored_words := removeAll l (stored_words d)\<rparr>)),
       addNoteToWord =
         (\<lambda>l n u d.
            (Inr \<lparr> cn_id = Finite (of_nat (length (stored_notes d) + 1)), cn_note = n,
                   cn_createdAt = str ''2025-11-26T00:00:00.000Z'', cn_user = None \<rparr>,
             d\<lparr>stored_notes := stored_notes d @
                  [(Finite (of_nat (length (stored_notes d) + 1)),
                    \<lparr> userId = u, word_lemma = Some l, note_user = None \<rparr>)]\<rparr>)),
       getNoteWithDetails = (\<lambda>i d. Inr (map_of (stored_notes d) i)),
       updateNoteValue =
         (\<lambda>i n d.
            (Inr \<lparr> un_id = i, un_note = n, un_createdAt = str ''2025-11-26T00:00:00.000Z'' \<rparr>, d)),
       deleteNoteById = (\<lambda>i d. (Inr (), d\<lparr>stored_notes := filter (\<lambda>p. fst p \<noteq> i) (stored_notes d)\<rparr>)),
       MEANING_MARKER_KEYS = [str ''register'', str ''region''],
       numberToString = digits_toString \<rparr>"

definition session_of :: "string \<Rightarrow> string \<Rightarrow> exn + session_user option" where
  "session_of i r = Inr (Some \<lparr> user_id = Some (str i), role = Some (str r) \<rparr>)"

definition example_store :: store where
  "example_store =
     \<lparr> stored_words = [str ''cahu'' @ [0xED] @ str ''n''],
       stored_notes =
         [(Finite 7, \<lparr> userId = Some (Finite 42), word_lemma = Some (str ''cahu'' @ [0xED] @ str ''n''),
                       note_user = Some \<lparr> nu_id = Finite 42, nu_username = str ''ana'' \<rparr> \<rparr>)] \<rparr>"

definition example_world :: "store world" where
  "example_world = \<lparr> db = example_store, calls = [] \<rparr>"

definition example_values :: jsval where
  "example_values =
     JArr [JNum (Finite 5), JNull,
           JObj [(str ''meaning'', JStr (str '' '')), (str ''register'', JStr (str ''vulgar'')),
                 (str ''example'', JObj [(str ''value'', JStr (str ''x''))])],
           JObj [(str ''number'', JNum (Finite 7)), (str ''meaning'', JStr (str ''hola'')),
                 (str ''examples'', JArr [])]]"

section \<open>Example requests\<close>

definition cahuin :: jsstring where
  "cahuin = str ''cahu'' @ [0xED] @ str ''n''"

definition update_request :: request where
  "update_request =
     \<lparr> headers = [], searchParams = [],
       json = Inr (JObj [(str ''word'', JObj [(str ''lemma'', JStr cahuin)])]) \<rparr>"

definition create_request :: request where
  "create_request =
     \<lparr> headers = [], searchParams = [],
       json = Inr (JObj [(str ''lemma'', JStr (str '' pololo '')),
                         (str ''assignedTo'', JArr [JStr (str ''12'')])]) \<rparr>"

definition lookup_request :: request where
  "lookup_request =
     \<lparr> headers = [], searchParams = [(str ''editorMode'', str ''true'')], json = Inl SyntaxError \<rparr>"




definition example_note :: note_details where
  "example_note =
     \<lparr> userId = Some (Finite 42), word_lemma = Some cahuin,
       note_user = Some \<lparr> nu_id = Finite 42, nu_username = str ''ana'' \<rparr> \<rparr>"

definition patch_payload :: jsval where
  "patch_payload = JObj [(str ''note'', JStr (str '' hola ''))]"

definition patch_request :: request where
  "patch_request = \<lparr> headers = [], searchParams = [], json = Inr patch_payload \<rparr>"

definition admin_5 :: session_user where
  "admin_5 = \<lparr> user_id = Some (str ''5''), role = Some (str ''admin'') \<rparr>"

definition lexicographer_5 :: session_user where
  "lexicographer_5 = \<lparr> user_id = Some (str ''5''), role = Some (str ''lexicographer'') \<rparr>"

definition lexicographer_42 :: session_user where
  "lexicographer_42 = \<lparr> user_id = Some (str ''42''), role = Some (str ''lexicographer'') \<rparr>"

definition example_comment :: word_comment where
  "example_comment =
     \<lparr> comment_id = 7,
       comment_user = Some \<lparr> cu_id = Some 42, cu_username = str ''ana'' \<rparr>,
       comment_note = str ''revisar'', createdAt = str ''2025-11-26T00:00:00.000Z'' \<rparr>"

definition saved_comment :: word_comment where
  "saved_comment =
     \<lparr> comment_id = 8,
       comment_user = Some \<lparr> cu_id = Some 5, cu_username = str ''luis'' \<rparr>,
       comment_note = str ''hola'', createdAt = str ''2025-11-26T10:00:00.000Z'' \<rparr>"

definition example_hook :: user_role where
  "example_hook =
     \<lparr> isAdmin = True, isLexicographer = False, currentId = Some 5, hook_username = Some (str ''luis'') \<rparr>"

definition example_section :: section_state where
  "example_section = \<lparr> comments = [example_comment], error = Some (str ''antes'') \<rparr>"

section \<open>Properties\<close>

subsection \<open>String literals\<close>

lemma unat_of_char16: "unat (of_char c :: 16 word) = of_char c"
  by (cases c) (simp add: unat_word_ariths)

lemma of_char16_eq_iff: "(of_char c :: 16 word) = of_char d \<longleftrightarrow> c = d"
proof
  assume "(of_char c :: 16 word) = of_char d"
  then have "unat (of_char c :: 16 word) = unat (of_char d :: 16 word)"
    by simp
  then have "(of_char c :: nat) = of_char d"
    by (simp only: unat_of_char16)
  then show "c = d"
    by simp
qed simp

lemma str_eq_iff [simp]: "str a = str b \<longleftrightarrow> a = b"
proof -
  have "inj (of_char :: char \<Rightarrow> 16 word)"
    by (rule injI) (simp add: of_char16_eq_iff)
  then show ?thesis
    unfolding str_def by (rule inj_map_eq_map)
qed

lemma str_Nil [simp]: "str [] = []"
  by (simp add: str_def)

lemma str_eq_Nil [simp]: "str a = [] \<longleftrightarrow> a = []" "[] = str a \<longleftrightarrow> a = []"
  by (auto simp: str_def)

subsection \<open>Numbers of integers\<close>

lemma excess_bits_small: "m < 2 ^ 53 \<Longrightarrow> excess_bits m = 0"
  by (simp add: excess_bits.simps [of m])

lemma double_of_nat_small: "m < 2 ^ 53 \<Longrightarrow> double_of_nat m = Finite (of_nat m)"
proof -
  assume small: "m < 2 ^ 53"
  have "m < 2 ^ 1024"
    by (rule less_trans [OF small]) simp
  with small show ?thesis
    by (simp add: double_of_nat_def excess_bits_small Let_def)
qed

lemma double_of_int_small: "\<bar>i\<bar> < 2 ^ 53 \<Longrightarrow> double_of_int i = num_of_int i"
proof -
  assume small: "\<bar>i\<bar> < 2 ^ 53"
  show ?thesis
  proof (cases "i < 0")
    case True
    with small have "nat (- i) < 2 ^ 53"
      by (simp add: nat_less_iff)
    with True show ?thesis
      by (simp add: double_of_int_def double_of_nat_small num_of_int_def)
  next
    case False
    with small have "nat i < 2 ^ 53"
      by (simp add: nat_less_iff)
    with False show ?thesis
      by (simp add: double_of_int_def double_of_nat_small num_of_int_def)
  qed
qed

lemma double_of_nat_cases:
  "double_of_nat m = PosInfinity \<or> (\<exists>k. double_of_nat m = Finite (of_nat k))"
proof -
  define v where "v = (let e = excess_bits m;
          q = m div 2 ^ e;
          r = m mod 2 ^ e;
          q' = (if 2 * r > 2 ^ e \<or> (2 * r = 2 ^ e \<and> odd q) then q + 1 else q)
      in q' * 2 ^ e)"
  have "double_of_nat m = (if v \<ge> 2 ^ 1024 then PosInfinity else Finite (of_nat v))"
    by (simp only: double_of_nat_def v_def Let_def)
  then show ?thesis
    by (cases "v \<ge> 2 ^ 1024") (simp_all only: if_True if_False simp_thms, blast)
qed

lemma double_of_int_not_NaN: "double_of_int i \<noteq> NaN"
  using double_of_nat_cases [of "nat i"] double_of_nat_cases [of "nat (- i)"]
  by (auto simp: double_of_int_def)

lemma double_of_int_cases:
  "double_of_int i = PosInfinity \<or> double_of_int i = NegInfinity
   \<or> (\<exists>k. double_of_int i = num_of_int k \<and> (0 \<le> i \<longrightarrow> 0 \<le> k) \<and> (i < 0 \<longrightarrow> k \<le> 0))"
proof (cases "i < 0")
  case True
  from double_of_nat_cases [of "nat (- i)"] show ?thesis
  proof
    assume "double_of_nat (nat (- i)) = PosInfinity"
    with True show ?thesis by (simp add: double_of_int_def)
  next
    assume "\<exists>k. double_of_nat (nat (- i)) = Finite (of_nat k)"
    then obtain k where "double_of_nat (nat (- i)) = Finite (of_nat k)" ..
    with True have "double_of_int i = num_of_int (- int k)"
      by (simp add: double_of_int_def num_of_int_def)
    with True show ?thesis by (intro disjI2 exI [of _ "- int k"]) simp
  qed
next
  case False
  from double_of_nat_cases [of "nat i"] show ?thesis
  proof
    assume "double_of_nat (nat i) = PosInfinity"
    with False show ?thesis by (simp add: double_of_int_def)
  next
    assume "\<exists>k. double_of_nat (nat i) = Finite (of_nat k)"
    then obtain k where "double_of_nat (nat i) = Finite (of_nat k)" ..
    with False have "double_of_int i = num_of_int (int k)"
      by (simp add: double_of_int_def num_of_int_def)
    with False show ?thesis by (intro disjI2 exI [of _ "int k"]) simp
  qed
qed

lemma double_of_nat_tie: "double_of_nat 9007199254740993 = Finite 9007199254740992"
  by (simp add: double_of_nat_def excess_bits.simps [of 9007199254740993] excess_bits_small Let_def)

lemma double_of_nat_up: "double_of_nat 9007199254740995 = Finite 9007199254740996"
  by (simp add: double_of_nat_def excess_bits.simps [of 9007199254740995] excess_bits_small Let_def)

lemma parseInt_tie: "parseInt (str ''9007199254740993'') = Finite 9007199254740992"
  by (simp add: parseInt_def is_ws_def is_digit_def digits_value_def str_def double_of_int_def
      double_of_nat_tie)

subsection \<open>Objects and \<open>normalizeMeanings\<close>\<close>

lemma map_of_set_prop: "map_of (set_prop k v ps) = (map_of ps)(k \<mapsto> v)"
  by (induction ps) (auto simp: fun_upd_twist)

lemma map_of_spread: "map_of (spread target source) = map_of target ++ map_of (rev source)"
  unfolding spread_def
  by (induction source rule: rev_induct) (auto simp: map_of_set_prop fun_eq_iff map_add_def)

lemma set_set_prop: "set (set_prop k v ps) \<subseteq> insert (k, v) (set ps)"
  by (induction ps) (auto split: if_splits)

lemma map_of_fold_set_prop:
  "map_of (foldl (\<lambda>acc key. set_prop key (f key) acc) acc keys) k =
   (if k \<in> set keys then Some (f k) else map_of acc k)"
  by (induction keys rule: rev_induct) (auto simp: map_of_set_prop)

lemma entries_fold_set_prop:
  "(k, v) \<in> set (foldl (\<lambda>acc key. set_prop key (f key) acc) acc keys) \<Longrightarrow>
   (k, v) \<in> set acc \<or> v = f k"
proof (induction keys arbitrary: v rule: rev_induct)
  case Nil
  then show ?case by simp
next
  case (snoc key keys)
  then show ?case
    using set_set_prop [of key "f key" "foldl (\<lambda>acc key. set_prop key (f key) acc) acc keys"]
    by auto
qed

lemma map_of_rev_fold_set_prop:
  "map_of (rev (foldl (\<lambda>acc key. set_prop key (f key) acc) [] keys)) k =
   (if k \<in> set keys then Some (f k) else None)"
proof (cases "map_of (rev (foldl (\<lambda>acc key. set_prop key (f key) acc) [] keys)) k")
  case None
  then have "map_of (foldl (\<lambda>acc key. set_prop key (f key) acc) [] keys) k = None"
    by (simp add: map_of_eq_None_iff)
  with None show ?thesis
    by (simp add: map_of_fold_set_prop split: if_splits)
next
  case (Some v)
  then have "(k, v) \<in> set (rev (foldl (\<lambda>acc key. set_prop key (f key) acc) [] keys))"
    by (rule map_of_SomeD)
  then have mem: "(k, v) \<in> set (foldl (\<lambda>acc key. set_prop key (f key) acc) [] keys)"
    by simp
  then have v: "v = f k"
    using entries_fold_set_prop [of k v f "[]" keys] by simp
  from mem have "map_of (foldl (\<lambda>acc key. set_prop key (f key) acc) [] keys) k \<noteq> None"
    using weak_map_of_SomeI [OF mem] by auto
  then have "k \<in> set keys"
    by (simp add: map_of_fold_set_prop split: if_splits)
  with Some v show ?thesis by simp
qed

lemma extractMarkerValues_fold:
  "extractMarkerValues keys source =
   foldl (\<lambda>acc key. set_prop key (string_or_null (get_prop source key)) acc) [] keys"
proof -
  have "(\<lambda>acc key. let rawValue = get_prop source key
              in if typeof rawValue = TString then set_prop key rawValue acc
                 else set_prop key JNull acc) =
        (\<lambda>acc key. set_prop key (string_or_null (get_prop source key)) acc)"
    by (simp add: fun_eq_iff Let_def string_or_null_def)
  then show ?thesis
    by (simp add: extractMarkerValues_def)
qed

lemma map_of_rev_extractMarkerValues:
  "map_of (rev (extractMarkerValues keys source)) k =
   (if k \<in> set keys then Some (string_or_null (get_prop source k)) else None)"
  by (simp add: extractMarkerValues_fold map_of_rev_fold_set_prop)


lemma get_prop_normalizeMeaning_marker:
  "k \<in> set keys \<Longrightarrow>
   get_prop (normalizeMeaning ts keys item index) k = string_or_null (get_prop item k)"
  by (simp add: normalizeMeaning_def Let_def map_of_spread map_add_def map_of_rev_extractMarkerValues)

lemma get_prop_spread_field:
  "k \<notin> set keys \<Longrightarrow> map_of (spread fs (extractMarkerValues keys item)) k = map_of fs k"
  by (simp add: map_of_spread map_add_def map_of_rev_extractMarkerValues)

lemma get_prop_normalizeMeaning_number:
  "str ''number'' \<notin> set keys \<Longrightarrow>
   get_prop (normalizeMeaning ts keys item index) (str ''number'') =
   (if typeof (get_prop item (str ''number'')) = TNumber
                    then get_prop item (str ''number'')
                    else JNum (Finite (of_nat (index + 1))))"
  by (simp add: normalizeMeaning_def Let_def get_prop_spread_field)

lemma get_prop_normalizeMeaning_examples:
  "str ''examples'' \<notin> set keys \<Longrightarrow>
   get_prop (normalizeMeaning ts keys item index) (str ''examples'') =
   (if extractExamples item = [] then JNull else JArr (extractExamples item))"
  by (simp add: normalizeMeaning_def Let_def get_prop_spread_field)

lemma get_prop_normalizeMeaning_meaning:
  "str ''meaning'' \<notin> set keys \<Longrightarrow>
   get_prop (normalizeMeaning ts keys item index) (str ''meaning'') =
   (let number = (if typeof (get_prop item (str ''number'')) = TNumber
                    then get_prop item (str ''number'')
                    else JNum (Finite (of_nat (index + 1))))
    in if typeof (get_prop item (str ''meaning'')) = TString
                        \<and> trim (the_str (get_prop item (str ''meaning''))) \<noteq> []
                     then get_prop item (str ''meaning'')
                     else JStr (Definicion @ str '' '' @ ts (the_num number)))"
  by (simp add: normalizeMeaning_def Let_def get_prop_spread_field)

lemma normalizeMeanings_nth:
  "isArray input \<Longrightarrow> i < length (filter (\<lambda>item. typeof item = TObject \<and> item \<noteq> JNull) (elements input)) \<Longrightarrow>
   normalizeMeanings ts keys input ! i = normalizeMeaning ts keys (filter (\<lambda>item. typeof item = TObject \<and> item \<noteq> JNull) (elements input) ! i) i"
  by (simp add: normalizeMeanings_def nth_enumerate_eq)

subsection \<open>\<open>resolveAssignedTo\<close>\<close>

text \<open>
  C9. \<open>resolveAssignedTo\<close> is a total function (its recursion goes to the first element of a
  non-empty array, which is smaller), and its value is: an integer number itself; for a string
  the base-10 \<open>parseInt\<close>, \<open>null\<close> when that is NaN; for a non-empty array the value at its first
  element; \<open>null\<close> for a number that is no integer, the empty array, an object, \<open>null\<close>,
  \<open>undefined\<close> and a boolean. Here \<open>parseInt\<close> is the number JavaScript computes: the digits
  rounded to the nearest double, \<open>Infinity\<close> from \<open>2 ^ 1024\<close> on.
\<close>

theorem resolveAssignedTo_cases:
  "resolveAssignedTo (JNum n) = (if Number_isInteger (JNum n) then Some n else None) \<and>
   resolveAssignedTo (JStr s) = (if parseInt s = NaN then None else Some (parseInt s)) \<and>
   resolveAssignedTo (JArr (x # xs)) = resolveAssignedTo x \<and>
   resolveAssignedTo (JArr []) = None \<and>
   resolveAssignedTo (JObj ps) = None \<and>
   resolveAssignedTo JNull = None \<and>
   resolveAssignedTo JUndefined = None \<and>
   resolveAssignedTo (JBool b) = None"
  by (simp add: resolveAssignedTo.simps [of "JNum n"] resolveAssignedTo.simps [of "JStr s"]
      resolveAssignedTo.simps [of "JArr (x # xs)"] resolveAssignedTo.simps [of "JArr []"]
      resolveAssignedTo.simps [of "JObj ps"] resolveAssignedTo.simps [of JNull]
      resolveAssignedTo.simps [of JUndefined] resolveAssignedTo.simps [of "JBool b"]
      Number_isNaN_def Let_def)

lemma floor_three_halves: "\<lfloor>3 / 2 :: rat\<rfloor> = 1"
  by (simp add: floor_eq_iff)

text \<open>The last string of the witness is \<open>2 ^ 53 + 1\<close>, which is no double: \<open>parseInt\<close> gives
  \<open>2 ^ 53\<close>.\<close>

theorem resolveAssignedTo_cases_witness:
  "resolveAssignedTo (JArr [JArr [JStr (str '' -42abc'')], JNum (Finite 3)]) = Some (Finite (- 42)) \<and>
   resolveAssignedTo (JNum (Finite 7)) = Some (Finite 7) \<and>
   resolveAssignedTo (JNum (Finite (3 / 2))) = None \<and>
   resolveAssignedTo (JStr (str ''abc'')) = None \<and>
   resolveAssignedTo (JStr (str ''9007199254740993'')) = Some (Finite 9007199254740992)"
proof -
  have parsed: "parseInt (str '' -42abc'') = Finite (- 42)" "parseInt (str ''abc'') = NaN"
    by (simp_all add: parseInt_def is_ws_def is_digit_def digits_value_def str_def
        double_of_int_small num_of_int_def)
  show ?thesis
    using resolveAssignedTo_cases [of "Finite 7" "str '' -42abc''" "JArr [JStr (str '' -42abc'')]"
        "[JNum (Finite 3)]" "[]" True]
      resolveAssignedTo_cases [of "Finite (3 / 2)" "str ''abc''" "JStr (str '' -42abc'')" "[]" "[]"
        True]
      resolveAssignedTo_cases [of "Finite 7" "str ''9007199254740993''" JNull "[]" "[]" True]
    by (simp add: parsed parseInt_tie floor_three_halves)
qed

subsection \<open>\<open>hashString\<close> and \<open>getPaletteForUser\<close>\<close>

lemma ToInt32_range: "- (2 ^ 31) \<le> ToInt32 x \<and> ToInt32 x < 2 ^ 31"
  unfolding ToInt32_def
  using sint_ge [of "word_of_int x :: 32 word"] sint_lt [of "word_of_int x :: 32 word"]
  by simp

lemma hashString_loop_range:
  "- (2 ^ 31) \<le> h \<Longrightarrow> h < 2 ^ 31 \<Longrightarrow>
   - (2 ^ 31) \<le> hashString_loop h s \<and> hashString_loop h s < 2 ^ 31"
  by (induction s arbitrary: h) (use ToInt32_range in auto)

lemma hashString_bounds: "0 \<le> hashString s \<and> hashString s \<le> 2 ^ 31"
  using hashString_loop_range [of 0 s] by (auto simp: hashString_def)

lemma js_rem_nonneg: "0 \<le> a \<Longrightarrow> 0 < b \<Longrightarrow> js_rem a b = a mod b"
  by (auto simp: js_rem_def sgn_if)

lemma length_COLOR_PALETTE: "length COLOR_PALETTE = 6"
  by (simp add: COLOR_PALETTE_def)

text \<open>
  C10. For every string, \<open>hashString\<close> is not negative (at most \<open>2 ^ 31\<close>, the absolute value
  of the least 32-bit integer), the index \<open>hashString(userKey) % COLOR_PALETTE.length\<close> lies
  inside the palette of six entries, \<open>getPaletteForUser\<close> is an entry of the palette and never
  \<open>undefined\<close>, and equal keys get the same entry.
\<close>

theorem getPaletteForUser_defined:
  "0 \<le> hashString userKey \<and> hashString userKey \<le> 2 ^ 31 \<and>
   length COLOR_PALETTE = 6 \<and>
   0 \<le> js_rem (hashString userKey) (int (length COLOR_PALETTE)) \<and>
   js_rem (hashString userKey) (int (length COLOR_PALETTE)) < int (length COLOR_PALETTE) \<and>
   getPaletteForUser userKey = Some (COLOR_PALETTE ! nat (hashString userKey mod 6)) \<and>
   COLOR_PALETTE ! nat (hashString userKey mod 6) \<in> set COLOR_PALETTE \<and>
   (userKey' = userKey \<longrightarrow> getPaletteForUser userKey' = getPaletteForUser userKey)"
  using hashString_bounds [of userKey]
  by (auto simp: getPaletteForUser_def array_get_def js_rem_nonneg length_COLOR_PALETTE)

lemma hashString_loop_least: "hashString_loop 0 (str ''xfjfz6f'') = - (2 ^ 31)"
  by (simp add: str_def ToInt32_def shift_left_def)

text \<open>The witness is a key whose 32-bit hash is the least integer \<open>- 2 ^ 31\<close>, where
  \<open>Math.abs\<close> leaves the 32-bit range.\<close>

theorem getPaletteForUser_defined_witness:
  "hashString_loop 0 (str ''xfjfz6f'') = - (2 ^ 31) \<and>
   hashString (str ''xfjfz6f'') = 2 ^ 31 \<and>
   js_rem (hashString (str ''xfjfz6f'')) (int (length COLOR_PALETTE)) = 2 \<and>
   getPaletteForUser (str ''xfjfz6f'') = Some (mk_palette ''amber'' ''100'')"
  using getPaletteForUser_defined [of "str ''xfjfz6f''" "str ''xfjfz6f''"]
  by (simp add: hashString_def hashString_loop_least COLOR_PALETTE_def js_rem_def)

lemma has_prop_normalizeMeaning_marker:
  "k \<in> set keys \<Longrightarrow> has_prop (normalizeMeaning ts keys item index) k"
  by (simp add: normalizeMeaning_def Let_def map_of_spread map_add_def map_of_rev_extractMarkerValues)

lemma length_normalizeMeanings:
  "isArray input \<Longrightarrow>
   length (normalizeMeanings ts keys input) =
   length (filter (\<lambda>item. typeof item = TObject \<and> item \<noteq> JNull) (elements input))"
  by (simp add: normalizeMeanings_def)

text \<open>
  C8. \<open>normalizeMeanings\<close> is a total function. On a value that is no array it gives the empty
  list. On an array it keeps the items that are objects and not \<open>null\<close>, one meaning for each, in
  order; in the meaning of the item at (post-filter) index \<open>i\<close>, \<open>number\<close> is the item's number
  when that is a number and \<open>i + 1\<close> otherwise, \<open>meaning\<close> is the item's meaning when that is a
  string with a non-empty trim and otherwise the word \<open>Definicion\<close>, a space and that number,
  \<open>examples\<close> is \<open>null\<close> exactly when \<open>extractExamples\<close> is empty, and every marker key is
  present, with the item's value when that is a string and \<open>null\<close> otherwise. The marker keys are
  taken to differ from the eight fixed properties, which the spread would overwrite.
\<close>

theorem normalizeMeanings_shape:
  assumes "set keys \<inter> set MEANING_FIELDS = {}"
  shows
    "(\<not> isArray input \<longrightarrow> normalizeMeanings toString keys input = []) \<and>
     (isArray input \<longrightarrow>
        (let items = filter (\<lambda>item. typeof item = TObject \<and> item \<noteq> JNull) (elements input);
             result = normalizeMeanings toString keys input
         in length result = length items \<and>
            (\<forall>i < length items.
               let item = items ! i;
                   m = result ! i;
                   number = (if typeof (get_prop item (str ''number'')) = TNumber
                             then get_prop item (str ''number'')
                             else JNum (Finite (of_nat (i + 1))))
               in get_prop m (str ''number'') = number \<and>
                  get_prop m (str ''meaning'') =
                    (if typeof (get_prop item (str ''meaning'')) = TString
                        \<and> trim (the_str (get_prop item (str ''meaning''))) \<noteq> []
                     then get_prop item (str ''meaning'')
                     else JStr (Definicion @ str '' '' @ toString (the_num number))) \<and>
                  (get_prop m (str ''examples'') = JNull \<longleftrightarrow> extractExamples item = []) \<and>
                  (extractExamples item \<noteq> [] \<longrightarrow>
                     get_prop m (str ''examples'') = JArr (extractExamples item)) \<and>
                  (\<forall>key \<in> set keys.
                     has_prop m key \<and>
                     get_prop m key =
                       (if typeof (get_prop item key) = TString then get_prop item key else JNull)))))"
proof -
  from assms have fields: "str ''number'' \<notin> set keys" "str ''meaning'' \<notin> set keys"
    "str ''examples'' \<notin> set keys"
    by (auto simp: MEANING_FIELDS_def)
  show ?thesis
  proof (intro conjI impI)
    assume "\<not> isArray input"
    then show "normalizeMeanings toString keys input = []"
      by (simp add: normalizeMeanings_def)
  next
    assume arr: "isArray input"
    show "let items = filter (\<lambda>item. typeof item = TObject \<and> item \<noteq> JNull) (elements input);
             result = normalizeMeanings toString keys input
         in length result = length items \<and>
            (\<forall>i < length items.
               let item = items ! i;
                   m = result ! i;
                   number = (if typeof (get_prop item (str ''number'')) = TNumber
                             then get_prop item (str ''number'')
                             else JNum (Finite (of_nat (i + 1))))
               in get_prop m (str ''number'') = number \<and>
                  get_prop m (str ''meaning'') =
                    (if typeof (get_prop item (str ''meaning'')) = TString
                        \<and> trim (the_str (get_prop item (str ''meaning''))) \<noteq> []
                     then get_prop item (str ''meaning'')
                     else JStr (Definicion @ str '' '' @ toString (the_num number))) \<and>
                  (get_prop m (str ''examples'') = JNull \<longleftrightarrow> extractExamples item = []) \<and>
                  (extractExamples item \<noteq> [] \<longrightarrow>
                     get_prop m (str ''examples'') = JArr (extractExamples item)) \<and>
                  (\<forall>key \<in> set keys.
                     has_prop m key \<and>
                     get_prop m key =
                       (if typeof (get_prop item key) = TString then get_prop item key else JNull)))"
      unfolding Let_def
    proof (intro conjI allI impI ballI)
      show "length (normalizeMeanings toString keys input) =
            length (filter (\<lambda>item. typeof item = TObject \<and> item \<noteq> JNull) (elements input))"
        using arr by (rule length_normalizeMeanings)
    next
      fix i
      assume i: "i < length (filter (\<lambda>item. typeof item = TObject \<and> item \<noteq> JNull) (elements input))"
      note nth = normalizeMeanings_nth [OF arr i, of toString keys]
      show "get_prop (normalizeMeanings toString keys input ! i) (str ''number'') =
            (if typeof (get_prop (filter (\<lambda>item. typeof item = TObject \<and> item \<noteq> JNull) (elements input) ! i) (str ''number'')) = TNumber
             then get_prop (filter (\<lambda>item. typeof item = TObject \<and> item \<noteq> JNull) (elements input) ! i) (str ''number'')
             else JNum (Finite (of_nat (i + 1))))"
        by (simp only: nth get_prop_normalizeMeaning_number [OF fields(1)])
    qed (simp_all add: normalizeMeanings_nth [OF arr] get_prop_normalizeMeaning_meaning [OF fields(2)]
          get_prop_normalizeMeaning_examples [OF fields(3)] get_prop_normalizeMeaning_marker
          get_prop_normalizeMeaning_number [OF fields(1)]
          has_prop_normalizeMeaning_marker string_or_null_def Let_def del: get_prop.simps)
  qed
qed


lemma normalizeMeanings_example:
  "normalizeMeanings digits_toString [str ''register'', str ''region''] example_values =
     [JObj [(str ''number'', JNum (Finite 1)),
            (str ''meaning'', JStr (Definicion @ str '' 1'')),
            (str ''origin'', JNull), (str ''grammarCategory'', JNull), (str ''remission'', JNull),
            (str ''observation'', JNull),
            (str ''examples'', JArr [JObj [(str ''value'', JStr (str ''x''))]]),
            (str ''variant'', JNull),
            (str ''register'', JStr (str ''vulgar'')), (str ''region'', JNull)],
      JObj [(str ''number'', JNum (Finite 7)),
            (str ''meaning'', JStr (str ''hola'')),
            (str ''origin'', JNull), (str ''grammarCategory'', JNull), (str ''remission'', JNull),
            (str ''observation'', JNull),
            (str ''examples'', JNull),
            (str ''variant'', JNull),
            (str ''register'', JNull), (str ''region'', JNull)]]"
  by (simp add: example_values_def normalizeMeanings_def normalizeMeaning_def extractMarkerValues_def
      extractExamples_def string_or_null_def spread_def enumerate_eq_zip Let_def trim_def is_ws_def
      decimal_digits.simps [of "Suc 0"] str_def)

theorem normalizeMeanings_shape_witness:
  "set [str ''register'', str ''region''] \<inter> set MEANING_FIELDS = {} \<and>
   length (normalizeMeanings digits_toString [str ''register'', str ''region''] example_values) = 2 \<and>
   get_prop (normalizeMeanings digits_toString [str ''register'', str ''region''] example_values ! 0)
     (str ''meaning'') = JStr (Definicion @ str '' 1'') \<and>
   get_prop (normalizeMeanings digits_toString [str ''register'', str ''region''] example_values ! 1)
     (str ''examples'') = JNull"
proof -
  have disjoint: "set [str ''register'', str ''region''] \<inter> set MEANING_FIELDS = {}"
    by (simp add: MEANING_FIELDS_def)
  have items: "filter (\<lambda>item. typeof item = TObject \<and> item \<noteq> JNull) (elements example_values) =
     [JObj [(str ''meaning'', JStr (str '' '')), (str ''register'', JStr (str ''vulgar'')),
                 (str ''example'', JObj [(str ''value'', JStr (str ''x''))])],
           JObj [(str ''number'', JNum (Finite 7)), (str ''meaning'', JStr (str ''hola'')),
                 (str ''examples'', JArr [])]]"
    by (simp add: example_values_def)
  have "isArray example_values"
    by (simp add: example_values_def)
  with normalizeMeanings_shape [OF disjoint, of example_values digits_toString]
  have "length (normalizeMeanings digits_toString [str ''register'', str ''region''] example_values) = 2"
    by (simp add: Let_def items)
  with disjoint show ?thesis
    by (simp add: normalizeMeanings_example)
qed

subsection \<open>The handlers and their calls\<close>

lemma db_invoke [simp]: "db (invoke c w) = db w"
  by (simp add: invoke_def)

lemma calls_invoke [simp]: "calls (invoke c w) = calls w @ [c]"
  by (simp add: invoke_def)

lemma new_calls_append [simp]: "calls w' = calls w @ cs \<Longrightarrow> new_calls w w' = cs"
  by (simp add: new_calls_def)

lemma status_simps [simp]:
  "status (error_json msg st) = st"
  "status (error_details msg e) = 500"
  "status (NextResponse_json v st) = st"
  "status TooManyRequests = 429"
  by (simp_all add: error_json_def error_details_def NextResponse_json_def TooManyRequests_def)

lemma decode_cahuin: "decodeURIComponent (str ''cahu%C3%ADn'') = Inr cahuin"
  by (simp add: decodeURIComponent_def Decode.simps str_def hex_value_def leading_ones_def
      prepend_def utf8_code_point_def UTF16EncodeCodePoint_def cahuin_def)

lemma decode_percent: "decodeURIComponent (str ''%'') = Inl URIError"
  by (simp add: decodeURIComponent_def Decode.simps str_def)

lemma getSessionUser_session_of:
  "getSessionUser (memory_backend allow (session_of i r)) =
     Inr (Some \<lparr> user_id = Some (str i), role = Some (str r) \<rparr>)"
  by (simp add: memory_backend_def session_of_def)

lemma DELETE_word_admin:
  "DELETE_word (memory_backend allow (session_of ''1'' ''admin'')) (str ''cahu%C3%ADn'') example_world =
     (NextResponse_json (JObj [(str ''success'', JBool True)]) 200,
      \<lparr> db = example_store\<lparr>stored_words := []\<rparr>,
        calls = [GetSessionUser, DeleteWordByLemma cahuin] \<rparr>)"
  by (simp add: DELETE_word_def memory_backend_def session_of_def decode_cahuin example_world_def
      example_store_def invoke_def cahuin_def)

lemma DELETE_word_lexicographer:
  "DELETE_word (memory_backend allow (session_of ''2'' ''lexicographer'')) (str ''cahu%C3%ADn'') example_world =
     (error_json (str ''Forbidden: Admin permission required to delete words'') 403,
      \<lparr> db = example_store, calls = [GetSessionUser] \<rparr>)"
  by (simp add: DELETE_word_def memory_backend_def session_of_def example_world_def invoke_def)

lemma DELETE_word_malformed:
  "DELETE_word (memory_backend allow (session_of ''1'' ''admin'')) (str ''%'') example_world =
     (error_details Error_al_eliminar URIError, \<lparr> db = example_store, calls = [GetSessionUser] \<rparr>)"
  by (simp add: DELETE_word_def memory_backend_def session_of_def decode_percent example_world_def
      invoke_def)

subsection \<open>DELETE of a word\<close>

text \<open>
  C1, as stated, fails: the last sentence says \<open>deleteWordByLemma\<close> is called exactly when a
  session user with role admin or superadmin is present. With an admin session and the lemma
  \<open>%\<close>, \<open>decodeURIComponent\<close> throws, the handler answers 500 and \<open>deleteWordByLemma\<close> is not
  called.
\<close>

theorem DELETE_word_malformed_lemma_counterexample:
  "getSessionUser (memory_backend True (session_of ''1'' ''admin'')) =
     Inr (Some \<lparr> user_id = Some (str ''1''), role = Some (str ''admin'') \<rparr>) \<and>
   status (fst (DELETE_word (memory_backend True (session_of ''1'' ''admin'')) (str ''%'') example_world)) = 500 \<and>
   calls (snd (DELETE_word (memory_backend True (session_of ''1'' ''admin'')) (str ''%'') example_world)) =
     [GetSessionUser] \<and>
   db (snd (DELETE_word (memory_backend True (session_of ''1'' ''admin'')) (str ''%'') example_world)) =
     example_store"
  by (simp add: DELETE_word_malformed) (simp add: memory_backend_def session_of_def)

text \<open>
  C1, amended. Without a session user the response is 401, with a role that is neither admin nor
  superadmin it is 403, and these are the only requests answered so; in both cases the only call
  is \<open>getSessionUser\<close> and the stored data are unchanged. For a session user with role admin or
  superadmin: when \<open>decodeURIComponent\<close> throws on the lemma parameter the response is 500,
  \<open>deleteWordByLemma\<close> is not called and the stored data are unchanged; otherwise
  \<open>deleteWordByLemma\<close> is called once, on the decoded lemma, and the response is 200 with
  \<open>{success: true}\<close> when it returns and 500 when it throws. So \<open>deleteWordByLemma\<close> is called
  exactly when a session user with role admin or superadmin is present and the lemma parameter
  decodes. When \<open>getSessionUser\<close> throws, the response is 500 and nothing is called.
\<close>

theorem DELETE_word_authorization:
  "(let (res, w') = DELETE_word be lemma w
    in (getSessionUser be = Inr None \<longrightarrow>
          res = error_json (str ''Authentication required'') 401 \<and>
          status res = 401 \<and> new_calls w w' = [GetSessionUser] \<and> db w' = db w) \<and>
       (\<forall>user. getSessionUser be = Inr (Some user) \<and> role user \<noteq> Some (str ''admin'')
                 \<and> role user \<noteq> Some (str ''superadmin'') \<longrightarrow>
          res = error_json (str ''Forbidden: Admin permission required to delete words'') 403 \<and>
          status res = 403 \<and> new_calls w w' = [GetSessionUser] \<and> db w' = db w) \<and>
       (status res = 401 \<longleftrightarrow> getSessionUser be = Inr None) \<and>
       (status res = 403 \<longleftrightarrow>
          (\<exists>user. getSessionUser be = Inr (Some user) \<and> role user \<noteq> Some (str ''admin'')
              \<and> role user \<noteq> Some (str ''superadmin''))) \<and>
       (\<forall>e. getSessionUser be = Inl e \<longrightarrow>
          res = error_details Error_al_eliminar e \<and> status res = 500 \<and>
          new_calls w w' = [GetSessionUser] \<and> db w' = db w) \<and>
       (\<forall>user. getSessionUser be = Inr (Some user)
            \<and> (role user = Some (str ''admin'') \<or> role user = Some (str ''superadmin'')) \<longrightarrow>
          (\<forall>e. decodeURIComponent lemma = Inl e \<longrightarrow>
             res = error_details Error_al_eliminar e \<and> status res = 500 \<and>
             new_calls w w' = [GetSessionUser] \<and> db w' = db w) \<and>
          (\<forall>l. decodeURIComponent lemma = Inr l \<longrightarrow>
             new_calls w w' = [GetSessionUser, DeleteWordByLemma l] \<and>
             (\<forall>u db'. deleteWordByLemma be l (db w) = (Inr u, db') \<longrightarrow>
                res = NextResponse_json (JObj [(str ''success'', JBool True)]) 200 \<and>
                db w' = db') \<and>
             (\<forall>e db'. deleteWordByLemma be l (db w) = (Inl e, db') \<longrightarrow>
                res = error_details Error_al_eliminar e \<and> status res = 500 \<and> db w' = db'))) \<and>
       (\<forall>l. DeleteWordByLemma l \<in> set (new_calls w w') \<longleftrightarrow>
          (\<exists>user. getSessionUser be = Inr (Some user)
              \<and> (role user = Some (str ''admin'') \<or> role user = Some (str ''superadmin'')))
          \<and> decodeURIComponent lemma = Inr l) \<and>
       (\<forall>e. decodeURIComponent lemma = Inl e \<longrightarrow>
          (\<forall>l. DeleteWordByLemma l \<notin> set (new_calls w w')) \<and> db w' = db w \<and>
          status res \<in> {401, 403, 500}))"
  by (auto simp: DELETE_word_def Let_def split: sum.splits option.splits prod.splits)

theorem DELETE_word_authorization_witness:
  "DELETE_word (memory_backend True (session_of ''1'' ''admin'')) (str ''cahu%C3%ADn'') example_world =
     (NextResponse_json (JObj [(str ''success'', JBool True)]) 200,
      \<lparr> db = example_store\<lparr>stored_words := []\<rparr>,
        calls = [GetSessionUser, DeleteWordByLemma cahuin] \<rparr>) \<and>
   DeleteWordByLemma cahuin \<in> set (new_calls example_world
     \<lparr> db = example_store\<lparr>stored_words := []\<rparr>,
       calls = [GetSessionUser, DeleteWordByLemma cahuin] \<rparr>) \<and>
   DELETE_word (memory_backend True (session_of ''2'' ''lexicographer'')) (str ''cahu%C3%ADn'')
     example_world =
     (error_json (str ''Forbidden: Admin permission required to delete words'') 403,
      \<lparr> db = example_store, calls = [GetSessionUser] \<rparr>) \<and>
   DELETE_word (memory_backend True (session_of ''1'' ''admin'')) (str ''%'') example_world =
     (error_details Error_al_eliminar URIError, \<lparr> db = example_store, calls = [GetSessionUser] \<rparr>) \<and>
   status (error_details Error_al_eliminar URIError) = 500"
proof -
  have "DeleteWordByLemma cahuin \<in> set (new_calls example_world
     \<lparr> db = example_store\<lparr>stored_words := []\<rparr>,
       calls = [GetSessionUser, DeleteWordByLemma cahuin] \<rparr>)"
    using DELETE_word_authorization [of "memory_backend True (session_of ''1'' ''admin'')"
        "str ''cahu%C3%ADn''" example_world, unfolded DELETE_word_admin]
    by (simp add: getSessionUser_session_of decode_cahuin)
  moreover have "status (error_details Error_al_eliminar URIError) = 500"
    using DELETE_word_authorization [of "memory_backend True (session_of ''1'' ''admin'')"
        "str ''%''" example_world, unfolded DELETE_word_malformed]
    by (simp add: getSessionUser_session_of decode_percent)
  ultimately show ?thesis
    by (simp only: DELETE_word_admin DELETE_word_lexicographer DELETE_word_malformed simp_thms)
qed

subsection \<open>Rate limiting\<close>

lemma GET_limited:
  "\<not> applyRateLimit be request \<Longrightarrow> GET be request lemma w = (TooManyRequests, invoke ApplyRateLimit w)"
  by (simp add: GET_def)

lemma POST_limited:
  "\<not> applyRateLimit be request \<Longrightarrow> POST be request w = (TooManyRequests, invoke ApplyRateLimit w)"
  by (simp add: POST_def)

lemma GET_first_call: "\<exists>cs. calls (snd (GET be request lemma w)) = calls w @ ApplyRateLimit # cs"
  by (simp add: GET_def Let_def split: sum.split option.split)

lemma POST_first_call: "\<exists>cs. calls (snd (POST be request w)) = calls w @ ApplyRateLimit # cs"
  by (simp add: POST_def Let_def split: sum.split option.split prod.split)

lemma new_calls_prefix: "calls w' = calls w @ cs \<Longrightarrow> new_calls w w' = cs"
  by (simp add: new_calls_def)

lemma PUT_limited_example:
  "PUT (memory_backend False (session_of ''1'' ''admin'')) update_request (str ''cahu%C3%ADn'')
     example_world =
     (PUT_success None,
      \<lparr> db = example_store,
        calls = [UpdateWordByLemma cahuin (JObj [(str ''lemma'', JStr cahuin)]) JUndefined JUndefined] \<rparr>)"
  by (simp add: PUT_def decode_cahuin update_request_def memory_backend_def example_world_def
      invoke_def Let_def)

text \<open>
  C4, as stated, fails for \<open>PUT\<close> and \<open>DELETE\<close>: neither calls \<open>applyRateLimit\<close>. With a
  rate limiter that rejects every request, \<open>PUT\<close> still calls \<open>updateWordByLemma\<close> and answers
  200, and \<open>DELETE\<close> still calls \<open>deleteWordByLemma\<close> and answers 200.
\<close>

theorem rate_limit_PUT_DELETE_counterexample:
  "\<not> applyRateLimit (memory_backend False (session_of ''1'' ''admin'')) update_request \<and>
   PUT (memory_backend False (session_of ''1'' ''admin'')) update_request (str ''cahu%C3%ADn'')
     example_world =
     (PUT_success None,
      \<lparr> db = example_store,
        calls = [UpdateWordByLemma cahuin (JObj [(str ''lemma'', JStr cahuin)]) JUndefined JUndefined] \<rparr>) \<and>
   status (PUT_success None) = 200 \<and>
   DELETE_word (memory_backend False (session_of ''1'' ''admin'')) (str ''cahu%C3%ADn'') example_world =
     (NextResponse_json (JObj [(str ''success'', JBool True)]) 200,
      \<lparr> db = example_store\<lparr>stored_words := []\<rparr>,
        calls = [GetSessionUser, DeleteWordByLemma cahuin] \<rparr>)"
  by (simp add: PUT_limited_example DELETE_word_admin PUT_success_def) (simp add: memory_backend_def)

text \<open>
  C4, amended to \<open>GET\<close> and \<open>POST\<close>. The first call of both handlers is \<open>applyRateLimit\<close>,
  whatever the request; when it reports failure the response is status 429 with the text
  \<open>Too Many Requests\<close>, no other call is made and the stored data are unchanged.
\<close>

theorem rate_limit_GET_POST:
  "(\<exists>cs. new_calls w (snd (GET be request lemma w)) = ApplyRateLimit # cs) \<and>
   (\<exists>cs. new_calls w (snd (POST be request w)) = ApplyRateLimit # cs) \<and>
   (\<not> applyRateLimit be request \<longrightarrow>
      fst (GET be request lemma w) = TooManyRequests \<and>
      fst (POST be request w) = TooManyRequests \<and>
      status TooManyRequests = 429 \<and>
      res_body TooManyRequests = Text (str ''Too Many Requests'') \<and>
      new_calls w (snd (GET be request lemma w)) = [ApplyRateLimit] \<and>
      new_calls w (snd (POST be request w)) = [ApplyRateLimit] \<and>
      db (snd (GET be request lemma w)) = db w \<and>
      db (snd (POST be request w)) = db w)"
proof (intro conjI impI)
  show "\<exists>cs. new_calls w (snd (GET be request lemma w)) = ApplyRateLimit # cs"
    using GET_first_call [of be request "lemma" w] by (auto simp: new_calls_def)
  show "\<exists>cs. new_calls w (snd (POST be request w)) = ApplyRateLimit # cs"
    using POST_first_call [of be request w] by (auto simp: new_calls_def)
qed (simp_all add: GET_limited POST_limited TooManyRequests_def)

theorem rate_limit_GET_POST_witness:
  "GET (memory_backend False (session_of ''1'' ''admin'')) create_request (JStr cahuin) example_world =
     (TooManyRequests, \<lparr> db = example_store, calls = [ApplyRateLimit] \<rparr>) \<and>
   POST (memory_backend False (session_of ''1'' ''admin'')) create_request example_world =
     (TooManyRequests, \<lparr> db = example_store, calls = [ApplyRateLimit] \<rparr>)"
proof -
  have limited: "\<not> applyRateLimit (memory_backend False (session_of ''1'' ''admin'')) create_request"
    by (simp add: memory_backend_def)
  have world: "invoke ApplyRateLimit example_world = \<lparr> db = example_store, calls = [ApplyRateLimit] \<rparr>"
    by (simp add: invoke_def example_world_def)
  have "fst (GET (memory_backend False (session_of ''1'' ''admin'')) create_request (JStr cahuin)
               example_world) = TooManyRequests"
    "fst (POST (memory_backend False (session_of ''1'' ''admin'')) create_request example_world)
       = TooManyRequests"
    using rate_limit_GET_POST [of example_world "memory_backend False (session_of ''1'' ''admin'')"
        create_request "JStr cahuin"] limited
    by blast+
  then show ?thesis
    using GET_limited [OF limited, of "JStr cahuin" example_world]
      POST_limited [OF limited, of example_world]
    by (simp only: world simp_thms)
qed

subsection \<open>GET of a word\<close>

lemma length_str [simp]: "length (str s) = length s"
  by (simp add: str_def)

lemma GET_invalid:
  "applyRateLimit be request \<Longrightarrow>
   \<not> truthy lemma \<or> typeof lemma \<noteq> TString \<or> trim (the_str lemma) = [] \<Longrightarrow>
   GET be request lemma w = (error_json (str ''Invalid lemma parameter'') 400, invoke ApplyRateLimit w)"
  by (auto simp: GET_def)

lemma GET_malformed:
  "applyRateLimit be request \<Longrightarrow>
   truthy lemma \<Longrightarrow> typeof lemma = TString \<Longrightarrow> trim (the_str lemma) \<noteq> [] \<Longrightarrow>
   decodeURIComponent (trim (the_str lemma)) = Inl e \<Longrightarrow>
   GET be request lemma w = (error_json (str ''Internal server error'') 500, invoke ApplyRateLimit w)"
  by (simp add: GET_def)

lemma GET_too_long:
  "applyRateLimit be request \<Longrightarrow>
   truthy lemma \<Longrightarrow> typeof lemma = TString \<Longrightarrow> trim (the_str lemma) \<noteq> [] \<Longrightarrow>
   decodeURIComponent (trim (the_str lemma)) = Inr decodedLemma \<Longrightarrow>
   length decodedLemma > 100 \<Longrightarrow>
   GET be request lemma w = (error_json (str ''Lemma too long'') 400, invoke ApplyRateLimit w)"
  by (simp add: GET_def)

lemma GET_lookup:
  "applyRateLimit be request \<Longrightarrow>
   truthy lemma \<Longrightarrow> typeof lemma = TString \<Longrightarrow> trim (the_str lemma) \<noteq> [] \<Longrightarrow>
   decodeURIComponent (trim (the_str lemma)) = Inr decodedLemma \<Longrightarrow>
   length decodedLemma \<le> 100 \<Longrightarrow>
   options = (if isEditorModeFromHeaders be (headers request)
                 \<or> searchParams_get request (str ''editorMode'') = Some (str ''true'')
              then Some True else None) \<Longrightarrow>
   GET be request lemma w =
     (case getWordByLemma be decodedLemma options (db w) of
        Inl e \<Rightarrow> error_json (str ''Internal server error'') 500
      | Inr None \<Rightarrow> error_json (str ''Word not found'') 404
      | Inr (Some wordData) \<Rightarrow>
          NextResponse_json (JObj [(str ''success'', JBool True), (str ''data'', wordData)]) 200,
      invoke (GetWordByLemma decodedLemma options) (invoke ApplyRateLimit w))"
  by (simp add: GET_def Let_def split: sum.split option.split)

lemma trim_padded_cahuin: "trim (str '' cahu%C3%ADn '') = str ''cahu%C3%ADn''"
  by (simp add: trim_def is_ws_def str_def)

lemma trim_percent: "trim (str ''%'') = str ''%''"
  by (simp add: trim_def is_ws_def str_def)

lemma length_cahuin: "length cahuin = 6"
  by (simp add: cahuin_def str_def)

lemma GET_example:
  "GET (memory_backend True (Inr None)) lookup_request (JStr (str '' cahu%C3%ADn '')) example_world =
     (NextResponse_json
        (JObj [(str ''success'', JBool True), (str ''data'', JObj [(str ''lemma'', JStr cahuin)])]) 200,
      \<lparr> db = example_store, calls = [ApplyRateLimit, GetWordByLemma cahuin (Some True)] \<rparr>)"
  by (simp add: GET_def trim_padded_cahuin decode_cahuin length_cahuin Let_def memory_backend_def
      lookup_request_def searchParams_get_def invoke_def example_world_def example_store_def
      cahuin_def)

lemma GET_malformed_example:
  "GET (memory_backend True (Inr None)) lookup_request (JStr (str ''%'')) example_world =
     (error_json (str ''Internal server error'') 500,
      \<lparr> db = example_store, calls = [ApplyRateLimit] \<rparr>)"
  by (simp add: GET_def trim_percent decode_percent memory_backend_def invoke_def example_world_def)

lemma GET_limited_example:
  "GET (memory_backend False (Inr None)) lookup_request (JStr []) example_world =
     (TooManyRequests, \<lparr> db = example_store, calls = [ApplyRateLimit] \<rparr>)"
  by (simp add: GET_def memory_backend_def invoke_def example_world_def)

text \<open>
  C7, as stated, fails at two requests. A request with an empty lemma that the rate limiter
  rejects gets 429, not 400. A request that passes the rate limiter with the lemma \<open>%\<close>, which
  is not empty and has one code unit, gets 500 from the \<open>catch\<close> block, because
  \<open>decodeURIComponent\<close> throws: it is neither answered with 400 nor looked up.
\<close>

theorem GET_word_lookup_counterexample:
  "trim [] = ([] :: jsstring) \<and>
   GET (memory_backend False (Inr None)) lookup_request (JStr []) example_world =
     (TooManyRequests, \<lparr> db = example_store, calls = [ApplyRateLimit] \<rparr>) \<and>
   status TooManyRequests = 429 \<and>
   truthy (JStr (str ''%'')) \<and> trim (str ''%'') = str ''%'' \<and> length (str ''%'') = 1 \<and>
   GET (memory_backend True (Inr None)) lookup_request (JStr (str ''%'')) example_world =
     (error_json (str ''Internal server error'') 500,
      \<lparr> db = example_store, calls = [ApplyRateLimit] \<rparr>)"
  by (simp add: GET_limited_example GET_malformed_example trim_percent) (simp add: trim_def str_def)

text \<open>
  C7, amended: for every GET request that passes the rate limiter. A lemma parameter that is
  missing, no string or empty after \<open>trim\<close> gives 400 (\<open>Invalid lemma parameter\<close>); a trimmed
  lemma that \<open>decodeURIComponent\<close> rejects gives 500; a decoded lemma of more than 100 code
  units gives 400 (\<open>Lemma too long\<close>); in these cases the database is not queried. Otherwise
  \<open>getWordByLemma\<close> is called once, on the decoded lemma, with \<open>includeDrafts\<close> set exactly
  when the headers indicate editor mode or the query parameter \<open>editorMode\<close> is \<open>true\<close>; when
  it yields nothing the response is 404 (\<open>Word not found\<close>), when it yields a word the response
  is 200 with \<open>{success: true, data: wordData}\<close>, and when it throws the response is 500. The
  stored data are never changed.
\<close>

theorem GET_word_lookup:
  assumes "applyRateLimit be request"
  shows
    "(let (res, w') = GET be request lemma w
      in (\<not> truthy lemma \<or> typeof lemma \<noteq> TString \<or> trim (the_str lemma) = [] \<longrightarrow>
            res = error_json (str ''Invalid lemma parameter'') 400 \<and>
            new_calls w w' = [ApplyRateLimit]) \<and>
         (truthy lemma \<and> typeof lemma = TString \<and> trim (the_str lemma) \<noteq> [] \<longrightarrow>
            (\<forall>e. decodeURIComponent (trim (the_str lemma)) = Inl e \<longrightarrow>
               status res = 500 \<and> new_calls w w' = [ApplyRateLimit]) \<and>
            (\<forall>decodedLemma. decodeURIComponent (trim (the_str lemma)) = Inr decodedLemma \<longrightarrow>
               (length decodedLemma > 100 \<longrightarrow>
                  res = error_json (str ''Lemma too long'') 400 \<and>
                  new_calls w w' = [ApplyRateLimit]) \<and>
               (length decodedLemma \<le> 100 \<longrightarrow>
                  (let includeDrafts = (isEditorModeFromHeaders be (headers request)
                          \<or> searchParams_get request (str ''editorMode'') = Some (str ''true''));
                       options = (if includeDrafts then Some True else None)
                   in new_calls w w' = [ApplyRateLimit, GetWordByLemma decodedLemma options] \<and>
                      (\<forall>e. getWordByLemma be decodedLemma options (db w) = Inl e \<longrightarrow>
                         status res = 500) \<and>
                      (getWordByLemma be decodedLemma options (db w) = Inr None \<longrightarrow>
                         res = error_json (str ''Word not found'') 404) \<and>
                      (\<forall>wordData.
                         getWordByLemma be decodedLemma options (db w) = Inr (Some wordData) \<longrightarrow>
                         res = NextResponse_json
                                 (JObj [(str ''success'', JBool True), (str ''data'', wordData)])
                                 200))))) \<and>
         db w' = db w)"
proof (cases "\<not> truthy lemma \<or> typeof lemma \<noteq> TString \<or> trim (the_str lemma) = []")
  case True
  then show ?thesis
    using GET_invalid [OF assms True, of w] by (auto simp: new_calls_prefix)
next
  case False
  then have ok: "truthy lemma" "typeof lemma = TString" "trim (the_str lemma) \<noteq> []"
    by auto
  show ?thesis
  proof (cases "decodeURIComponent (trim (the_str lemma))")
    case (Inl e)
    then show ?thesis
      using GET_malformed [OF assms ok Inl, of w] ok by (simp add: new_calls_prefix)
  next
    case (Inr decodedLemma)
    show ?thesis
    proof (cases "length decodedLemma > 100")
      case True
      then show ?thesis
        using GET_too_long [OF assms ok Inr True, of w] ok Inr by (simp add: new_calls_prefix)
    next
      case False
      then have short: "length decodedLemma \<le> 100"
        by simp
      show ?thesis
        using ok Inr short
        by (auto simp add: GET_lookup [OF assms ok Inr short refl] new_calls_prefix Let_def)
    qed
  qed
qed


theorem GET_word_lookup_witness:
  "applyRateLimit (memory_backend True (Inr None)) lookup_request \<and>
   GET (memory_backend True (Inr None)) lookup_request (JStr (str '' cahu%C3%ADn '')) example_world =
     (NextResponse_json
        (JObj [(str ''success'', JBool True), (str ''data'', JObj [(str ''lemma'', JStr cahuin)])]) 200,
      \<lparr> db = example_store, calls = [ApplyRateLimit, GetWordByLemma cahuin (Some True)] \<rparr>) \<and>
   new_calls example_world
     \<lparr> db = example_store, calls = [ApplyRateLimit, GetWordByLemma cahuin (Some True)] \<rparr> =
     [ApplyRateLimit, GetWordByLemma cahuin (Some True)]"
proof -
  have allowed: "applyRateLimit (memory_backend True (Inr None)) lookup_request"
    by (simp add: memory_backend_def)
  have "new_calls example_world
     \<lparr> db = example_store, calls = [ApplyRateLimit, GetWordByLemma cahuin (Some True)] \<rparr> =
     [ApplyRateLimit, GetWordByLemma cahuin (Some True)]"
    using GET_word_lookup [OF allowed, of "JStr (str '' cahu%C3%ADn '')" example_world,
        unfolded GET_example]
    by (simp add: trim_padded_cahuin decode_cahuin length_cahuin Let_def)
      (simp add: memory_backend_def lookup_request_def searchParams_get_def)
  with allowed show ?thesis
    by (simp only: GET_example simp_thms)
qed

subsection \<open>POST of a word\<close>


















subsection \<open>Comments: who may delete and who may edit\<close>

text \<open>A comment id that \<open>parseCommentId\<close> accepts is a positive integer (or \<open>Infinity\<close>, for
  digits whose value is \<open>2 ^ 1024\<close> or more), and is truthy.\<close>

lemma parseInt_cases:
  "parseInt s = NaN \<or> parseInt s = PosInfinity \<or> parseInt s = NegInfinity
   \<or> (\<exists>k. parseInt s = num_of_int k)"
proof (cases "parseInt s = NaN")
  case True
  then show ?thesis by simp
next
  case False
  then obtain i where "parseInt s = double_of_int i"
    by (auto simp: parseInt_def Let_def split: if_splits)
  with double_of_int_cases [of i] show ?thesis
    by auto
qed

lemma parseCommentId_positive:
  "parseCommentId rawId = Some noteId \<Longrightarrow>
   noteId = PosInfinity \<or> (\<exists>k. 0 < k \<and> noteId = num_of_int k)"
proof -
  assume a: "parseCommentId rawId = Some noteId"
  then have n: "parseInt rawId = noteId" "noteId \<noteq> NaN" "\<not> num_le_zero noteId"
    by (auto simp: parseCommentId_def Let_def Number_isNaN_def split: if_splits)
  from parseInt_cases [of rawId] n show ?thesis
    by (auto simp: num_of_int_def)
qed

lemma parseCommentId_truthy: "parseCommentId rawId = Some noteId \<Longrightarrow> truthy (JNum noteId)"
  using parseCommentId_positive [of rawId noteId] by (auto simp: num_of_int_def)

lemma getAuthorizedNote_found:
  "getNoteWithDetails be noteId (db w) = Inr (Some note) \<Longrightarrow> word_lemma note = Some l \<Longrightarrow>
   getAuthorizedNote be l noteId w = (Inr (Some note), invoke (GetNoteWithDetails noteId) w)"
  by (simp add: getAuthorizedNote_def Let_def)

lemma isOwner_iff:
  "(requesterId \<noteq> None \<and> strict_equals noteUser requesterId) \<longleftrightarrow>
   (\<exists>n. n \<noteq> NaN \<and> requesterId = Some n \<and> noteUser = Some n)"
  by (cases requesterId; cases noteUser) auto

lemma DELETE_comment_decision:
  assumes "getSessionUser be = Inr (Some user)"
    and "parseCommentId commentId = Some noteId"
    and "getNoteWithDetails be noteId (db w) = Inr (Some note)"
    and "word_lemma note = Some (normalizeLemma lemma)"
  shows "DELETE_comment be lemma commentId w =
     (let w2 = invoke (GetNoteWithDetails noteId) (invoke GetSessionUser w)
      in if \<not> ((role user = Some (str ''lexicographer'')
                   \<and> (requesterId_of user \<noteq> None
                       \<and> strict_equals (userId note) (requesterId_of user)))
                \<or> role user = Some (str ''admin'') \<or> role user = Some (str ''superadmin''))
         then (error_json (str ''No tienes permiso para eliminar este comentario.'') 403, w2)
         else
           (case deleteNoteById be noteId (db w) of
              (Inl e, db') \<Rightarrow>
                (error_details Error_al_eliminar_comentario e,
                 (invoke (DeleteNoteById noteId) w2)\<lparr>db := db'\<rparr>)
            | (Inr u, db') \<Rightarrow>
                (NextResponse_json
                   (JObj [(str ''success'', JBool True),
                          (str ''data'', JObj [(str ''id'', JNum noteId)])])
                   200,
                 (invoke (DeleteNoteById noteId) w2)\<lparr>db := db'\<rparr>)))"
  using assms parseCommentId_truthy [OF assms(2)]
  by (simp add: DELETE_comment_def getAuthorizedNote_found Let_def del: truthy.simps)

lemma PATCH_decision:
  assumes "getSessionUser be = Inr (Some user)"
    and "parseCommentId commentId = Some noteId"
    and "json request = Inr payload"
    and "typeof (get_prop payload (str ''note'')) = TString"
    and "trim (the_str (get_prop payload (str ''note''))) \<noteq> []"
    and "getNoteWithDetails be noteId (db w) = Inr (Some note)"
    and "word_lemma note = Some (normalizeLemma lemma)"
  shows "PATCH be request lemma commentId w =
     (let w2 = invoke (GetNoteWithDetails noteId) (invoke GetSessionUser w);
          noteValue = trim (the_str (get_prop payload (str ''note'')))
      in if \<not> ((requesterId_of user \<noteq> None \<and> strict_equals (userId note) (requesterId_of user))
                \<and> (role user = Some (str ''lexicographer'') \<or> role user = Some (str ''admin'')
                    \<or> role user = Some (str ''superadmin'')))
         then (error_json (str ''Solo puedes editar tus propios comentarios.'') 403, w2)
         else
           (case updateNoteValue be noteId noteValue (db w) of
              (Inl e, db') \<Rightarrow>
                (error_details Error_al_actualizar_comentario e,
                 (invoke (UpdateNoteValue noteId noteValue) w2)\<lparr>db := db'\<rparr>)
            | (Inr updated, db') \<Rightarrow>
                (NextResponse_json
                   (JObj [(str ''success'', JBool True),
                          (str ''data'', JObj [(str ''comment'',
                             JObj [(str ''id'', JNum (un_id updated)),
                                   (str ''note'', JStr (un_note updated)),
                                   (str ''createdAt'', JStr (un_createdAt updated)),
                                   (str ''user'', note_user_json (note_user note))])])])
                   200,
                 (invoke (UpdateNoteValue noteId noteValue) w2)\<lparr>db := db'\<rparr>)))"
proof -
  from assms(4) have payload: "payload \<noteq> JNull" "payload \<noteq> JUndefined"
    by auto
  have role: "(case role user of None \<Rightarrow> [] | Some r \<Rightarrow> r) = str x \<longleftrightarrow> role user = Some (str x)"
    if "x \<noteq> []" for x
    using that by (cases "role user") auto
  show ?thesis
    using assms payload parseCommentId_truthy [OF assms(2)]
    by (auto simp add: PATCH_def getAuthorizedNote_found Let_def read_prop_def role
        simp del: truthy.simps)
qed


lemma canEditComment_iff:
  "canEditComment editorMode hook comment \<longleftrightarrow>
     editorMode \<and>
     (\<exists>i u. currentId hook = Some i \<and> comment_user comment = Some u \<and> cu_id u = Some i) \<and>
     (isLexicographer hook \<or> isAdmin hook)"
  by (cases "comment_user comment") (auto simp: canEditComment_def Let_def)

lemma canDeleteComment_iff:
  "canDeleteComment editorMode hook comment \<longleftrightarrow>
     editorMode \<and>
     ((isLexicographer hook \<and>
       (\<exists>i u. currentId hook = Some i \<and> comment_user comment = Some u \<and> cu_id u = Some i))
      \<or> isAdmin hook)"
  by (cases "comment_user comment") (auto simp: canDeleteComment_def Let_def)

lemma parseInt_examples:
  "parseInt (str ''7'') = Finite 7" "parseInt (str ''5'') = Finite 5" "parseInt (str ''42'') = Finite 42"
  by (simp_all add: parseInt_def is_ws_def is_digit_def digits_value_def double_of_int_small
      num_of_int_def str_def)

lemma parseCommentId_7: "parseCommentId (str ''7'') = Some (Finite 7)"
  by (simp add: parseCommentId_def parseInt_examples Number_isNaN_def)

lemma normalizeLemma_cahuin: "normalizeLemma (str ''cahu%C3%ADn'') = cahuin"
  by (simp add: normalizeLemma_def decode_cahuin)

lemma example_note_found:
  "getNoteWithDetails (memory_backend allow session) (Finite 7) (db example_world) =
     Inr (Some example_note)"
  by (simp add: memory_backend_def example_world_def example_store_def example_note_def cahuin_def)

lemma requesterId_examples:
  "requesterId_of admin_5 = Some (Finite 5)"
  "requesterId_of lexicographer_5 = Some (Finite 5)"
  "requesterId_of lexicographer_42 = Some (Finite 42)"
  by (simp_all add: requesterId_of_def admin_5_def lexicographer_5_def lexicographer_42_def
      parseInt_examples)

lemma session_examples:
  "getSessionUser (memory_backend allow (Inr (Some u))) = Inr (Some u)"
  by (simp add: memory_backend_def)

lemma example_note_fields:
  "word_lemma example_note = Some (normalizeLemma (str ''cahu%C3%ADn''))"
  "userId example_note = Some (Finite 42)"
  by (simp_all add: example_note_def normalizeLemma_cahuin)

lemma delete_example_note:
  "deleteNoteById (memory_backend allow session) (Finite 7) (db example_world) =
     (Inr (), example_store\<lparr>stored_notes := []\<rparr>)"
  by (simp add: memory_backend_def example_world_def example_store_def)

lemma DELETE_comment_admin:
  "DELETE_comment (memory_backend True (Inr (Some admin_5))) (str ''cahu%C3%ADn'') (str ''7'')
     example_world =
     (NextResponse_json
        (JObj [(str ''success'', JBool True), (str ''data'', JObj [(str ''id'', JNum (Finite 7))])]) 200,
      \<lparr> db = example_store\<lparr>stored_notes := []\<rparr>,
        calls = [GetSessionUser, GetNoteWithDetails (Finite 7), DeleteNoteById (Finite 7)] \<rparr>)"
  by (simp add: DELETE_comment_decision [OF session_examples parseCommentId_7 example_note_found
        example_note_fields(1)] delete_example_note Let_def)
    (simp add: admin_5_def invoke_def example_world_def)

lemma DELETE_comment_other_lexicographer:
  "DELETE_comment (memory_backend True (Inr (Some lexicographer_5))) (str ''cahu%C3%ADn'') (str ''7'')
     example_world =
     (error_json (str ''No tienes permiso para eliminar este comentario.'') 403,
      \<lparr> db = example_store, calls = [GetSessionUser, GetNoteWithDetails (Finite 7)] \<rparr>)"
  by (simp add: DELETE_comment_decision [OF session_examples parseCommentId_7 example_note_found
        example_note_fields(1)] requesterId_examples example_note_fields(2) Let_def)
    (simp add: lexicographer_5_def invoke_def example_world_def)

lemma DELETE_comment_owner:
  "DELETE_comment (memory_backend True (Inr (Some lexicographer_42))) (str ''cahu%C3%ADn'') (str ''7'')
     example_world =
     (NextResponse_json
        (JObj [(str ''success'', JBool True), (str ''data'', JObj [(str ''id'', JNum (Finite 7))])]) 200,
      \<lparr> db = example_store\<lparr>stored_notes := []\<rparr>,
        calls = [GetSessionUser, GetNoteWithDetails (Finite 7), DeleteNoteById (Finite 7)] \<rparr>)"
  by (simp add: DELETE_comment_decision [OF session_examples parseCommentId_7 example_note_found
        example_note_fields(1)] requesterId_examples example_note_fields(2)
        delete_example_note Let_def)
    (simp add: lexicographer_42_def invoke_def example_world_def)

lemma trim_hola: "trim (str '' hola '') = str ''hola''"
  by (simp add: trim_def is_ws_def str_def)

lemma patch_payload:
  "json patch_request = Inr patch_payload"
  "typeof (get_prop patch_payload (str ''note'')) = TString"
  "trim (the_str (get_prop patch_payload (str ''note''))) = str ''hola''"
  by (simp_all add: patch_request_def patch_payload_def trim_hola)

lemma patch_payload_nonempty: "trim (the_str (get_prop patch_payload (str ''note''))) \<noteq> []"
  by (simp add: patch_payload(3))

lemma update_example_note:
  "updateNoteValue (memory_backend allow session) (Finite 7) (str ''hola'') (db example_world) =
     (Inr \<lparr> un_id = Finite 7, un_note = str ''hola'', un_createdAt = str ''2025-11-26T00:00:00.000Z'' \<rparr>,
      example_store)"
  by (simp add: memory_backend_def example_world_def)

lemma PATCH_admin_not_owner:
  "PATCH (memory_backend True (Inr (Some admin_5))) patch_request (str ''cahu%C3%ADn'') (str ''7'')
     example_world =
     (error_json (str ''Solo puedes editar tus propios comentarios.'') 403,
      \<lparr> db = example_store, calls = [GetSessionUser, GetNoteWithDetails (Finite 7)] \<rparr>)"
  by (simp add: PATCH_decision [OF session_examples parseCommentId_7 patch_payload(1,2)
        patch_payload_nonempty example_note_found example_note_fields(1)]
        requesterId_examples example_note_fields(2) Let_def)
    (simp add: invoke_def example_world_def)

lemma PATCH_owner:
  "PATCH (memory_backend True (Inr (Some lexicographer_42))) patch_request (str ''cahu%C3%ADn'')
     (str ''7'') example_world =
     (NextResponse_json
        (JObj [(str ''success'', JBool True),
               (str ''data'', JObj [(str ''comment'',
                  JObj [(str ''id'', JNum (Finite 7)),
                        (str ''note'', JStr (str ''hola'')),
                        (str ''createdAt'', JStr (str ''2025-11-26T00:00:00.000Z'')),
                        (str ''user'', JObj [(str ''id'', JNum (Finite 42)),
                                             (str ''username'', JStr (str ''ana''))])])])])
        200,
      \<lparr> db = example_store,
        calls = [GetSessionUser, GetNoteWithDetails (Finite 7),
                 UpdateNoteValue (Finite 7) (str ''hola'')] \<rparr>)"
  by (simp add: PATCH_decision [OF session_examples parseCommentId_7 patch_payload(1,2)
        patch_payload_nonempty example_note_found example_note_fields(1)]
        requesterId_examples example_note_fields(2) patch_payload(3) update_example_note Let_def)
    (simp add: lexicographer_42_def invoke_def example_world_def example_note_def
      note_user_json_def)

text \<open>
  C2. For an authenticated DELETE request whose comment id parses to a positive integer and
  whose note exists and belongs to the lemma: \<open>deleteNoteById\<close> is called on the note exactly
  when the requester is a lexicographer whose parsed id equals the \<open>userId\<close> of the note, or an
  admin or superadmin (who need not own the note). Then, when the call returns, the response is
  200 with \<open>{success: true, data: {id}}\<close> (500 when it throws). Otherwise the response is 403,
  the note is not deleted and the stored data are unchanged.
\<close>

theorem DELETE_comment_permission:
  assumes "getSessionUser be = Inr (Some user)"
    and "parseCommentId commentId = Some noteId"
    and "getNoteWithDetails be noteId (db w) = Inr (Some note)"
    and "word_lemma note = Some (normalizeLemma lemma)"
  shows
    "(let (res, w') = DELETE_comment be lemma commentId w;
          owner = (\<exists>n. n \<noteq> NaN \<and> requesterId_of user = Some n \<and> userId note = Some n);
          allowed = ((role user = Some (str ''lexicographer'') \<and> owner)
                     \<or> role user = Some (str ''admin'') \<or> role user = Some (str ''superadmin''))
      in (DeleteNoteById noteId \<in> set (new_calls w w') \<longleftrightarrow> allowed) \<and>
         (allowed \<longrightarrow>
            new_calls w w' = [GetSessionUser, GetNoteWithDetails noteId, DeleteNoteById noteId] \<and>
            (\<forall>u db'. deleteNoteById be noteId (db w) = (Inr u, db') \<longrightarrow>
               res = NextResponse_json
                       (JObj [(str ''success'', JBool True),
                              (str ''data'', JObj [(str ''id'', JNum noteId)])])
                       200 \<and>
               db w' = db') \<and>
            (\<forall>e db'. deleteNoteById be noteId (db w) = (Inl e, db') \<longrightarrow> status res = 500)) \<and>
         (\<not> allowed \<longrightarrow>
            status res = 403 \<and> new_calls w w' = [GetSessionUser, GetNoteWithDetails noteId] \<and>
            db w' = db w))"
  unfolding DELETE_comment_decision [OF assms] isOwner_iff [symmetric]
  by (auto simp: Let_def new_calls_def split: prod.splits sum.splits)


theorem DELETE_comment_permission_witness:
  "getSessionUser (memory_backend True (Inr (Some lexicographer_5))) = Inr (Some lexicographer_5) \<and>
   parseCommentId (str ''7'') = Some (Finite 7) \<and>
   getNoteWithDetails (memory_backend True (Inr (Some lexicographer_5))) (Finite 7) (db example_world) =
     Inr (Some example_note) \<and>
   word_lemma example_note = Some (normalizeLemma (str ''cahu%C3%ADn'')) \<and>
   DELETE_comment (memory_backend True (Inr (Some lexicographer_5))) (str ''cahu%C3%ADn'') (str ''7'')
     example_world =
     (error_json (str ''No tienes permiso para eliminar este comentario.'') 403,
      \<lparr> db = example_store, calls = [GetSessionUser, GetNoteWithDetails (Finite 7)] \<rparr>) \<and>
   DELETE_comment (memory_backend True (Inr (Some lexicographer_42))) (str ''cahu%C3%ADn'') (str ''7'')
     example_world =
     (NextResponse_json
        (JObj [(str ''success'', JBool True), (str ''data'', JObj [(str ''id'', JNum (Finite 7))])]) 200,
      \<lparr> db = example_store\<lparr>stored_notes := []\<rparr>,
        calls = [GetSessionUser, GetNoteWithDetails (Finite 7), DeleteNoteById (Finite 7)] \<rparr>) \<and>
   DeleteNoteById (Finite 7) \<in> set (new_calls example_world
      \<lparr> db = example_store\<lparr>stored_notes := []\<rparr>,
        calls = [GetSessionUser, GetNoteWithDetails (Finite 7), DeleteNoteById (Finite 7)] \<rparr>)"
proof -
  have "DeleteNoteById (Finite 7) \<in> set (new_calls example_world
      \<lparr> db = example_store\<lparr>stored_notes := []\<rparr>,
        calls = [GetSessionUser, GetNoteWithDetails (Finite 7), DeleteNoteById (Finite 7)] \<rparr>)"
    using DELETE_comment_permission [OF session_examples parseCommentId_7 example_note_found
        example_note_fields(1), of True admin_5, unfolded DELETE_comment_admin]
    by (simp add: Let_def) (simp add: admin_5_def)
  then show ?thesis
    by (simp only: session_examples parseCommentId_7 example_note_found example_note_fields
        DELETE_comment_other_lexicographer DELETE_comment_owner simp_thms)
qed


lemma num_of_int_eq_iff [simp]: "num_of_int i = num_of_int j \<longleftrightarrow> i = j"
  by (simp add: num_of_int_def)

lemma num_of_int_not_NaN [simp]: "num_of_int i \<noteq> NaN"
  by (simp add: num_of_int_def)

lemma client_server_owner:
  assumes "requesterId_of user = map_option num_of_int (currentId hook)"
    and "userId note =
           (case comment_user comment of None \<Rightarrow> None | Some u \<Rightarrow> map_option num_of_int (cu_id u))"
  shows "(requesterId_of user \<noteq> None \<and> strict_equals (userId note) (requesterId_of user)) \<longleftrightarrow>
         (\<exists>i u. currentId hook = Some i \<and> comment_user comment = Some u \<and> cu_id u = Some i)"
proof (cases "currentId hook")
  case None
  with assms show ?thesis by simp
next
  case (Some i)
  show ?thesis
  proof (cases "comment_user comment")
    case None
    with assms Some show ?thesis by simp
  next
    case u: (Some u)
    with assms Some show ?thesis by (cases "cu_id u") auto
  qed
qed

lemma PATCH_called_iff:
  assumes "getSessionUser be = Inr (Some user)"
    and "parseCommentId commentId = Some noteId"
    and "json request = Inr payload"
    and "typeof (get_prop payload (str ''note'')) = TString"
    and "trim (the_str (get_prop payload (str ''note''))) \<noteq> []"
    and "getNoteWithDetails be noteId (db w) = Inr (Some note)"
    and "word_lemma note = Some (normalizeLemma lemma)"
  shows "UpdateNoteValue noteId (trim (the_str (get_prop payload (str ''note''))))
           \<in> set (new_calls w (snd (PATCH be request lemma commentId w))) \<longleftrightarrow>
         (requesterId_of user \<noteq> None \<and> strict_equals (userId note) (requesterId_of user))
         \<and> (role user = Some (str ''lexicographer'') \<or> role user = Some (str ''admin'')
             \<or> role user = Some (str ''superadmin''))"
  unfolding PATCH_decision [OF assms]
  by (auto simp: Let_def new_calls_def split: prod.splits sum.splits)

lemma DELETE_comment_called_iff:
  assumes "getSessionUser be = Inr (Some user)"
    and "parseCommentId commentId = Some noteId"
    and "getNoteWithDetails be noteId (db w) = Inr (Some note)"
    and "word_lemma note = Some (normalizeLemma lemma)"
  shows "DeleteNoteById noteId \<in> set (new_calls w (snd (DELETE_comment be lemma commentId w))) \<longleftrightarrow>
         (role user = Some (str ''lexicographer'')
            \<and> (requesterId_of user \<noteq> None \<and> strict_equals (userId note) (requesterId_of user)))
         \<or> role user = Some (str ''admin'') \<or> role user = Some (str ''superadmin'')"
  unfolding DELETE_comment_decision [OF assms]
  by (auto simp: Let_def new_calls_def split: prod.splits sum.splits)

lemma PATCH_server_rule:
  assumes "getSessionUser be = Inr (Some user)"
    and "parseCommentId commentId = Some noteId"
    and "json request = Inr payload"
    and "typeof (get_prop payload (str ''note'')) = TString"
    and "trim (the_str (get_prop payload (str ''note''))) \<noteq> []"
    and "getNoteWithDetails be noteId (db w) = Inr (Some note)"
    and "word_lemma note = Some (normalizeLemma lemma)"
  shows
    "(let (res, w') = PATCH be request lemma commentId w;
          noteValue = trim (the_str (get_prop payload (str ''note'')));
          owner = (\<exists>n. n \<noteq> NaN \<and> requesterId_of user = Some n \<and> userId note = Some n);
          admin = (role user = Some (str ''admin'') \<or> role user = Some (str ''superadmin''));
          allowed = (owner \<and> (role user = Some (str ''lexicographer'') \<or> admin))
      in (UpdateNoteValue noteId noteValue \<in> set (new_calls w w') \<longleftrightarrow> allowed) \<and>
         (allowed \<longrightarrow>
            new_calls w w' =
              [GetSessionUser, GetNoteWithDetails noteId, UpdateNoteValue noteId noteValue] \<and>
            (\<forall>updated db'. updateNoteValue be noteId noteValue (db w) = (Inr updated, db') \<longrightarrow>
               status res = 200 \<and> db w' = db') \<and>
            (\<forall>e db'. updateNoteValue be noteId noteValue (db w) = (Inl e, db') \<longrightarrow>
               status res = 500)) \<and>
         (\<not> allowed \<longrightarrow>
            status res = 403 \<and> new_calls w w' = [GetSessionUser, GetNoteWithDetails noteId] \<and>
            db w' = db w) \<and>
         (admin \<and> \<not> owner \<longrightarrow>
            status res = 403 \<and> db w' = db w \<and>
            DeleteNoteById noteId
              \<in> set (new_calls w (snd (DELETE_comment be lemma commentId w)))))"
  unfolding PATCH_decision [OF assms] DELETE_comment_decision [OF assms(1,2,6,7)]
    isOwner_iff [symmetric]
  by (auto simp: Let_def new_calls_def split: prod.splits sum.splits)

lemma example_hook_owner:
  "requesterId_of admin_5 = map_option num_of_int (currentId example_hook)"
  "userId example_note =
     (case comment_user example_comment of None \<Rightarrow> None | Some u \<Rightarrow> map_option num_of_int (cu_id u))"
  by (simp_all add: requesterId_examples example_hook_def example_note_def example_comment_def
      num_of_int_def)

lemma example_hook_roles:
  "isLexicographer example_hook \<longleftrightarrow> role admin_5 = Some (str ''lexicographer'')"
  "isAdmin example_hook \<longleftrightarrow> role admin_5 = Some (str ''admin'') \<or> role admin_5 = Some (str ''superadmin'')"
  by (simp_all add: example_hook_def admin_5_def)

text \<open>
  C3. For an authenticated PATCH request with a note body that is a string and not empty after
  \<open>trim\<close>, whose comment id parses and whose note exists and belongs to the lemma:
  \<open>updateNoteValue\<close> is called exactly when the parsed id of the requester equals the \<open>userId\<close> of
  the note and the role is lexicographer, admin or superadmin. Otherwise the response is 403 and
  the stored data are unchanged; in particular for an admin or superadmin who does not own the
  note, for whom the DELETE handler on the same note does call \<open>deleteNoteById\<close>.

  The client and the server decide alike. Let the hook describe the session (its \<open>currentId\<close> is
  the parsed id of the requester, \<open>isLexicographer\<close> and \<open>isAdmin\<close> are the roles lexicographer
  and admin or superadmin) and let the user of the comment be the \<open>userId\<close> of the note. Then
  \<open>canEditComment\<close> holds exactly when the section is in editor mode and the PATCH handler calls
  \<open>updateNoteValue\<close>, and \<open>canDeleteComment\<close> exactly when it is in editor mode and the DELETE
  handler calls \<open>deleteNoteById\<close>. Outside editor mode the client offers neither. The last two
  conjuncts give both client predicates in the hook's own terms.
\<close>

theorem PATCH_comment_permission:
  assumes "getSessionUser be = Inr (Some user)"
    and "parseCommentId commentId = Some noteId"
    and "json request = Inr payload"
    and "typeof (get_prop payload (str ''note'')) = TString"
    and "trim (the_str (get_prop payload (str ''note''))) \<noteq> []"
    and "getNoteWithDetails be noteId (db w) = Inr (Some note)"
    and "word_lemma note = Some (normalizeLemma lemma)"
  shows
    "(let (res, w') = PATCH be request lemma commentId w;
          noteValue = trim (the_str (get_prop payload (str ''note'')));
          owner = (\<exists>n. n \<noteq> NaN \<and> requesterId_of user = Some n \<and> userId note = Some n);
          admin = (role user = Some (str ''admin'') \<or> role user = Some (str ''superadmin''));
          allowed = (owner \<and> (role user = Some (str ''lexicographer'') \<or> admin))
      in (UpdateNoteValue noteId noteValue \<in> set (new_calls w w') \<longleftrightarrow> allowed) \<and>
         (allowed \<longrightarrow>
            new_calls w w' =
              [GetSessionUser, GetNoteWithDetails noteId, UpdateNoteValue noteId noteValue] \<and>
            (\<forall>updated db'. updateNoteValue be noteId noteValue (db w) = (Inr updated, db') \<longrightarrow>
               status res = 200 \<and> db w' = db') \<and>
            (\<forall>e db'. updateNoteValue be noteId noteValue (db w) = (Inl e, db') \<longrightarrow>
               status res = 500)) \<and>
         (\<not> allowed \<longrightarrow>
            status res = 403 \<and> new_calls w w' = [GetSessionUser, GetNoteWithDetails noteId] \<and>
            db w' = db w) \<and>
         (admin \<and> \<not> owner \<longrightarrow>
            status res = 403 \<and> db w' = db w \<and>
            DeleteNoteById noteId
              \<in> set (new_calls w (snd (DELETE_comment be lemma commentId w))))) \<and>
     (requesterId_of user = map_option num_of_int (currentId hook) \<and>
      userId note =
        (case comment_user comment of None \<Rightarrow> None | Some u \<Rightarrow> map_option num_of_int (cu_id u)) \<and>
      (isLexicographer hook \<longleftrightarrow> role user = Some (str ''lexicographer'')) \<and>
      (isAdmin hook \<longleftrightarrow> role user = Some (str ''admin'') \<or> role user = Some (str ''superadmin''))
      \<longrightarrow>
        (canEditComment editorMode hook comment \<longleftrightarrow>
           editorMode \<and>
           UpdateNoteValue noteId (trim (the_str (get_prop payload (str ''note''))))
             \<in> set (new_calls w (snd (PATCH be request lemma commentId w)))) \<and>
        (canDeleteComment editorMode hook comment \<longleftrightarrow>
           editorMode \<and>
           DeleteNoteById noteId
             \<in> set (new_calls w (snd (DELETE_comment be lemma commentId w))))) \<and>
     (canEditComment editorMode hook comment \<longleftrightarrow>
        editorMode \<and>
        (\<exists>i u. currentId hook = Some i \<and> comment_user comment = Some u \<and> cu_id u = Some i) \<and>
        (isLexicographer hook \<or> isAdmin hook)) \<and>
     (canDeleteComment editorMode hook comment \<longleftrightarrow>
        editorMode \<and>
        ((isLexicographer hook \<and>
          (\<exists>i u. currentId hook = Some i \<and> comment_user comment = Some u \<and> cu_id u = Some i))
         \<or> isAdmin hook))"
proof (intro conjI)
  show "requesterId_of user = map_option num_of_int (currentId hook) \<and>
      userId note =
        (case comment_user comment of None \<Rightarrow> None | Some u \<Rightarrow> map_option num_of_int (cu_id u)) \<and>
      (isLexicographer hook \<longleftrightarrow> role user = Some (str ''lexicographer'')) \<and>
      (isAdmin hook \<longleftrightarrow> role user = Some (str ''admin'') \<or> role user = Some (str ''superadmin''))
      \<longrightarrow>
        (canEditComment editorMode hook comment \<longleftrightarrow>
           editorMode \<and>
           UpdateNoteValue noteId (trim (the_str (get_prop payload (str ''note''))))
             \<in> set (new_calls w (snd (PATCH be request lemma commentId w)))) \<and>
        (canDeleteComment editorMode hook comment \<longleftrightarrow>
           editorMode \<and>
           DeleteNoteById noteId
             \<in> set (new_calls w (snd (DELETE_comment be lemma commentId w))))"
  proof (intro impI, elim conjE)
    assume link: "requesterId_of user = map_option num_of_int (currentId hook)"
      "userId note =
        (case comment_user comment of None \<Rightarrow> None | Some u \<Rightarrow> map_option num_of_int (cu_id u))"
      and roles: "isLexicographer hook \<longleftrightarrow> role user = Some (str ''lexicographer'')"
        "isAdmin hook \<longleftrightarrow> role user = Some (str ''admin'') \<or> role user = Some (str ''superadmin'')"
    note owner = client_server_owner [OF link]
    show "(canEditComment editorMode hook comment \<longleftrightarrow>
           editorMode \<and>
           UpdateNoteValue noteId (trim (the_str (get_prop payload (str ''note''))))
             \<in> set (new_calls w (snd (PATCH be request lemma commentId w)))) \<and>
        (canDeleteComment editorMode hook comment \<longleftrightarrow>
           editorMode \<and>
           DeleteNoteById noteId
             \<in> set (new_calls w (snd (DELETE_comment be lemma commentId w))))"
      unfolding PATCH_called_iff [OF assms] DELETE_comment_called_iff [OF assms(1,2,6,7)]
        canEditComment_iff canDeleteComment_iff owner
      using roles by blast
  qed
qed (use PATCH_server_rule [OF assms] canEditComment_iff canDeleteComment_iff in blast)+

theorem PATCH_comment_permission_witness:
  "getSessionUser (memory_backend True (Inr (Some admin_5))) = Inr (Some admin_5) \<and>
   parseCommentId (str ''7'') = Some (Finite 7) \<and>
   json patch_request = Inr patch_payload \<and>
   trim (the_str (get_prop patch_payload (str ''note''))) = str ''hola'' \<and>
   getNoteWithDetails (memory_backend True (Inr (Some admin_5))) (Finite 7) (db example_world) =
     Inr (Some example_note) \<and>
   word_lemma example_note = Some (normalizeLemma (str ''cahu%C3%ADn'')) \<and>
   PATCH (memory_backend True (Inr (Some admin_5))) patch_request (str ''cahu%C3%ADn'') (str ''7'')
     example_world =
     (error_json (str ''Solo puedes editar tus propios comentarios.'') 403,
      \<lparr> db = example_store, calls = [GetSessionUser, GetNoteWithDetails (Finite 7)] \<rparr>) \<and>
   DeleteNoteById (Finite 7) \<in> set (new_calls example_world
      \<lparr> db = example_store\<lparr>stored_notes := []\<rparr>,
        calls = [GetSessionUser, GetNoteWithDetails (Finite 7), DeleteNoteById (Finite 7)] \<rparr>) \<and>
   PATCH (memory_backend True (Inr (Some lexicographer_42))) patch_request (str ''cahu%C3%ADn'')
     (str ''7'') example_world =
     (NextResponse_json
        (JObj [(str ''success'', JBool True),
               (str ''data'', JObj [(str ''comment'',
                  JObj [(str ''id'', JNum (Finite 7)),
                        (str ''note'', JStr (str ''hola'')),
                        (str ''createdAt'', JStr (str ''2025-11-26T00:00:00.000Z'')),
                        (str ''user'', JObj [(str ''id'', JNum (Finite 42)),
                                             (str ''username'', JStr (str ''ana''))])])])])
        200,
      \<lparr> db = example_store,
        calls = [GetSessionUser, GetNoteWithDetails (Finite 7),
                 UpdateNoteValue (Finite 7) (str ''hola'')] \<rparr>) \<and>
   requesterId_of admin_5 = map_option num_of_int (currentId example_hook) \<and>
   userId example_note =
     (case comment_user example_comment of None \<Rightarrow> None | Some u \<Rightarrow> map_option num_of_int (cu_id u)) \<and>
   isAdmin example_hook \<and> \<not> isLexicographer example_hook \<and>
   role admin_5 = Some (str ''admin'') \<and>
   \<not> canEditComment True example_hook example_comment \<and>
   canDeleteComment True example_hook example_comment"
proof -
  note inst = PATCH_comment_permission [OF session_examples [of True admin_5] parseCommentId_7
      patch_payload(1,2) patch_payload_nonempty example_note_found [of True "Inr (Some admin_5)"]
      example_note_fields(1),
      where hook = example_hook and comment = example_comment and editorMode = True,
      unfolded PATCH_admin_not_owner DELETE_comment_admin]
  have called: "DeleteNoteById (Finite 7) \<in> set (new_calls example_world
      \<lparr> db = example_store\<lparr>stored_notes := []\<rparr>,
        calls = [GetSessionUser, GetNoteWithDetails (Finite 7), DeleteNoteById (Finite 7)] \<rparr>)"
    by (simp add: new_calls_def example_world_def)
  have not_called: "UpdateNoteValue (Finite 7) (str ''hola'') \<notin> set (new_calls example_world
      \<lparr> db = example_store, calls = [GetSessionUser, GetNoteWithDetails (Finite 7)] \<rparr>)"
    by (simp add: new_calls_def example_world_def)
  from inst example_hook_owner example_hook_roles
  have client: "\<not> canEditComment True example_hook example_comment \<and>
      canDeleteComment True example_hook example_comment"
    using called not_called by (simp only: patch_payload(3) snd_conv simp_thms)
  have roles: "isAdmin example_hook" "\<not> isLexicographer example_hook"
    "role admin_5 = Some (str ''admin'')"
    by (simp_all add: example_hook_def admin_5_def)
  from client called roles example_hook_owner show ?thesis
    by (simp only: session_examples parseCommentId_7 patch_payload example_note_found
        example_note_fields(1) PATCH_admin_not_owner PATCH_owner simp_thms)
qed

subsection \<open>Adding a comment: optimistic update and rollback\<close>

lemma optimistic_comment_id [simp]: "comment_id (optimistic_comment hook trimmed now isoNow) = now"
  by (simp add: optimistic_comment_def Let_def)

lemma optimistic_comment_note [simp]:
  "comment_note (optimistic_comment hook trimmed now isoNow) = trimmed"
  by (simp add: optimistic_comment_def Let_def)

lemma addComment_failed_state:
  "addComment_failed (optimistic_comment hook trimmed now isoNow)
     (addComment_optimistic hook trimmed now isoNow st) =
   st\<lparr>comments := filter (\<lambda>comment. comment_id comment \<noteq> now) (comments st),
      error := Some (str ''No pudimos guardar el comentario. Vuelve a intentarlo.'')\<rparr>"
  by (simp add: addComment_failed_def addComment_optimistic_def Let_def)

lemma addComment_saved_state:
  "addComment_saved (optimistic_comment hook trimmed now isoNow) saved
     (addComment_optimistic hook trimmed now isoNow st) =
   st\<lparr>comments := saved # comments st, error := None\<rparr>"
  by (simp add: addComment_saved_def addComment_optimistic_def Let_def)

lemma comments_addComment_optimistic:
  "comments (addComment_optimistic hook trimmed now isoNow st) =
   optimistic_comment hook trimmed now isoNow # comments st"
  by (simp add: addComment_optimistic_def Let_def)

text \<open>
  C5. For a text that is not empty after \<open>trim\<close> and a lemma that is not empty, \<open>addComment\<close>
  first puts the optimistic comment (with id \<open>Date.now()\<close> and the trimmed text) in front of the
  list. When the PUT request fails (\<open>fetch\<close> throws, the response is not ok, its body does not
  parse, or \<open>data.comment\<close> is missing), the comments with the optimistic id are removed and the
  error message is set; so, when no earlier comment has that id, the list is the one before the
  call. When the request succeeds, the optimistic entry is replaced in place by the saved
  comment: the list is the saved comment in front of the earlier ones, and no error is set.
\<close>

theorem addComment_rollback:
  assumes "trim text \<noteq> []" and "lemma \<noteq> []"
  shows
    "(let optimistic = optimistic_comment hook (trim text) now isoNow;
          after = addComment hook lemma text now isoNow outcome st;
          failed = (outcome = FetchThrows \<or> (\<exists>parsed. outcome = PutResponse False parsed)
                    \<or> (\<exists>e. outcome = PutResponse True (Inl e))
                    \<or> outcome = PutResponse True (Inr None))
      in comment_id optimistic = now \<and> comment_note optimistic = trim text \<and>
         comments (addComment_optimistic hook (trim text) now isoNow st) = optimistic # comments st \<and>
         (failed \<longrightarrow>
            comments after = filter (\<lambda>comment. comment_id comment \<noteq> now) (comments st) \<and>
            error after = Some (str ''No pudimos guardar el comentario. Vuelve a intentarlo.'') \<and>
            ((\<forall>comment \<in> set (comments st). comment_id comment \<noteq> now) \<longrightarrow>
               comments after = comments st)) \<and>
         (\<forall>saved. outcome = PutResponse True (Inr (Some saved)) \<longrightarrow>
            comments after = saved # comments st \<and> error after = None))"
  using assms
  by (auto simp: addComment_def Let_def addComment_failed_state addComment_saved_state
      comments_addComment_optimistic filter_id_conv)

theorem addComment_rollback_witness:
  "trim (str '' hola '') \<noteq> [] \<and> cahuin \<noteq> [] \<and>
   addComment example_hook cahuin (str '' hola '') 1764150000000 (str ''2025-11-26T09:40:00.000Z'')
     (PutResponse False (Inr None)) example_section =
     \<lparr> comments = [example_comment],
       error = Some (str ''No pudimos guardar el comentario. Vuelve a intentarlo.'') \<rparr> \<and>
   addComment example_hook cahuin (str '' hola '') 1764150000000 (str ''2025-11-26T09:40:00.000Z'')
     (PutResponse True (Inr (Some saved_comment))) example_section =
     \<lparr> comments = [saved_comment, example_comment], error = None \<rparr>"
proof -
  have nonempty: "trim (str '' hola '') \<noteq> []" "cahuin \<noteq> []"
    by (simp_all add: trim_hola cahuin_def)
  have fresh: "\<forall>comment \<in> set (comments example_section). comment_id comment \<noteq> 1764150000000"
    by (simp add: example_section_def example_comment_def)
  have "comments (addComment example_hook cahuin (str '' hola '') 1764150000000
          (str ''2025-11-26T09:40:00.000Z'') (PutResponse False (Inr None)) example_section) =
        comments example_section"
    "error (addComment example_hook cahuin (str '' hola '') 1764150000000
          (str ''2025-11-26T09:40:00.000Z'') (PutResponse False (Inr None)) example_section) =
        Some (str ''No pudimos guardar el comentario. Vuelve a intentarlo.'')"
    using addComment_rollback [OF nonempty, of example_hook 1764150000000
        "str ''2025-11-26T09:40:00.000Z''" "PutResponse False (Inr None)" example_section] fresh
    by (simp_all add: Let_def)
  moreover have "comments (addComment example_hook cahuin (str '' hola '') 1764150000000
          (str ''2025-11-26T09:40:00.000Z'') (PutResponse True (Inr (Some saved_comment)))
          example_section) = saved_comment # comments example_section"
    "error (addComment example_hook cahuin (str '' hola '') 1764150000000
          (str ''2025-11-26T09:40:00.000Z'') (PutResponse True (Inr (Some saved_comment)))
          example_section) = None"
    using addComment_rollback [OF nonempty, of example_hook 1764150000000
        "str ''2025-11-26T09:40:00.000Z''" "PutResponse True (Inr (Some saved_comment))"
        example_section]
    by (simp_all add: Let_def)
  ultimately show ?thesis
    using nonempty by (simp add: section_state.equality example_section_def)
qed

end
